theory Spec2Isabelle
  imports Complex_Main "HOL-Library.Word"
begin

unbundle bit_operations_syntax

section \<open>Numbers of the host language\<close>

text \<open>
  Every number of the program is an IEEE-754 double. Two views are used below.
  \<^item> Integer-valued doubles (the generator state, the hashes) are \<open>int\<close>, and
    the rounding of a product or sum that no longer fits the 53-bit significand is written
    out (\<open>to_double\<close>): it changes the generator's sequence.
  \<^item> Fractional quantities (draws, speeds, coordinates) are \<open>real\<close>; their last-bit
    rounding is not modelled. Where the program can produce \<open>NaN\<close> the type is
    \<open>jsnum\<close>.
\<close>

text \<open>
  A number that need not be finite or a number at all, and the product of a finite number
  with one.
\<close>

datatype jsnum = Num real | PosInf | NegInf | NaN

fun times_num :: "real \<Rightarrow> jsnum \<Rightarrow> jsnum" where
  "times_num x (Num b) = Num (x * b)"
| "times_num x PosInf = (if 0 < x then PosInf else if x < 0 then NegInf else NaN)"
| "times_num x NegInf = (if 0 < x then NegInf else if x < 0 then PosInf else NaN)"
| "times_num x NaN = NaN"

function bit_length :: "int \<Rightarrow> nat" where
  "bit_length n = (if n \<le> 0 then 0 else Suc (bit_length (n div 2)))"
  by pat_completeness auto
termination
  by (relation "measure nat") auto

declare bit_length.simps [simp del]

text \<open>Round to the nearest multiple of \<open>2 ^ e\<close>, ties to the even multiple.\<close>

definition round_half_even :: "nat \<Rightarrow> int \<Rightarrow> int" where
  "round_half_even e n =
     (let q = n div 2 ^ e; r = n mod 2 ^ e
      in (if 2 * r < 2 ^ e then q
          else if 2 ^ e < 2 * r then q + 1
          else if even q then q else q + 1) * 2 ^ e)"

text \<open>
  The double nearest to an integer: integers of at most 53 bits are exact, an integer of
  \<open>53 + e\<close> bits is rounded to a multiple of \<open>2 ^ e\<close>.
\<close>

definition to_double :: "int \<Rightarrow> int" where
  "to_double n = round_half_even (bit_length \<bar>n\<bar> - 53) n"

section \<open>SeededRandom\<close>

text \<open>
  \<^verbatim>\<open>this.seed = (this.seed * 1103515245 + 12345) & 0x7fffffff; return this.seed / 0x7fffffff;\<close>
  The product and the sum are doubles; \<open>&\<close> takes the value modulo \<open>2 ^ 32\<close> and
  keeps the low 31 bits. The generator object is its state, passed explicitly.
\<close>

definition lcg_step :: "int \<Rightarrow> int" where
  "lcg_step s = to_double (to_double (s * 1103515245) + 12345) mod 2147483648"

definition rng_next :: "int \<Rightarrow> real \<times> int" where
  "rng_next s = (let s' = lcg_step s in (real_of_int s' / 2147483647, s'))"

text \<open>The state after \<open>n\<close> calls, and the value the \<open>n\<close>-th further call returns.\<close>

fun rng_state :: "int \<Rightarrow> nat \<Rightarrow> int" where
  "rng_state seed 0 = seed"
| "rng_state seed (Suc n) = snd (rng_next (rng_state seed n))"

definition rng_draw :: "int \<Rightarrow> nat \<Rightarrow> real" where
  "rng_draw seed n = fst (rng_next (rng_state seed n))"

section \<open>Data model (types/lbw.ts)\<close>

datatype Decision = OUT | NOT_OUT
datatype UmpiresCall = UMPIRES_CALL | CLEAR
datatype BallType = inswing | outswing | seam | offspin | legspin | straight
datatype Zone = outside_leg | inline | outside_off
datatype StumpHit = leg | middle | off | missing_leg | missing_off | over
datatype StepStatus = pending | processing | completed | error
datatype KeyFrameType = bounce | impact | wicket | release
datatype JsDate = ValidDate int | InvalidDate

record Position =
  pos_x :: real
  pos_y :: real

record TrajectoryPoint =
  tp_x :: real
  tp_y :: real
  tp_z :: jsnum

record LBWCriteria =
  pitchedInLine :: bool
  impactInLine :: bool
  legBeforeBat :: bool
  wouldHitWickets :: bool

record BallMetrics =
  speed :: real
  releaseSpeed :: real
  impactSpeed :: real
  spinRate :: "real option"
  swingDeviation :: real
  ballType :: "BallType option"
  angleOfEntry :: real

record PitchAnalysis =
  pa_zone :: Zone
  pa_distanceFromLegStump :: real
  pa_distanceFromOffStump :: real
  bounceAngle :: jsnum

record ImpactAnalysis =
  ia_zone :: Zone
  height :: real
  stumpHeight :: real
  isAboveStumps :: bool
  ia_distanceFromLegStump :: real
  ia_distanceFromOffStump :: real
  ia_umpiresCall :: UmpiresCall

record WicketPrediction =
  wouldHit :: bool
  hitPercentage :: real
  stumpHit :: "StumpHit option"
  wp_umpiresCall :: UmpiresCall
  marginOfError :: real

record AnalysisStep =
  step_id :: string
  step_name :: string
  step_description :: string
  status :: StepStatus
  step_data :: "(bool \<times> int) option"

record KeyFrame =
  kf_type :: KeyFrameType
  frameNumber :: int
  timestamp :: real
  imageUrl :: string
  kf_label :: string
  kf_description :: string

record AnalysisResult =
  result_id :: string
  videoId :: string
  videoName :: string
  videoThumbnail :: string
  decision :: Decision
  confidence :: real
  criteria :: LBWCriteria
  steps :: "AnalysisStep list"
  trajectory :: "TrajectoryPoint list"
  impactPoint :: Position
  bouncePoint :: Position
  predictedWicketHit :: "Position option"
  createdAt :: JsDate
  ballMetrics :: "BallMetrics option"
  pitchAnalysis :: "PitchAnalysis option"
  impactAnalysis :: "ImpactAnalysis option"
  wicketPrediction :: "WicketPrediction option"
  isUmpiresCall :: "bool option"
  keyFrames :: "KeyFrame list option"

record AnalysisSettings =
  pitch_length :: real
  pitch_width :: real
  crease_distance :: real
  pitch_surface :: string
  ball_type :: string
  stump_height :: real
  stump_width :: real
  confidence_threshold :: real
  camera_angle :: string
  camera_distance :: string

definition MOCK_DEFAULTS :: AnalysisSettings where
  "MOCK_DEFAULTS =
     \<lparr>pitch_length = 22, pitch_width = 10, crease_distance = 4, pitch_surface = ''concrete'',
      ball_type = ''tennis'', stump_height = 28, stump_width = 9, confidence_threshold = 50,
      camera_angle = ''side'', camera_distance = ''medium''\<rparr>"

section \<open>Strings built from numbers\<close>

text \<open>
  Template literals print an integer-valued number in decimal. An array read past its end
  gives \<open>undefined\<close>, here \<open>None\<close>.
\<close>

definition digit_char :: "nat \<Rightarrow> char" where
  "digit_char d = char_of (48 + d)"

function show_nat :: "nat \<Rightarrow> string" where
  "show_nat n = (if n < 10 then [digit_char n] else show_nat (n div 10) @ [digit_char (n mod 10)])"
  by pat_completeness auto
termination
  by (relation "measure id") auto

declare show_nat.simps [simp del]

definition show_int :: "int \<Rightarrow> string" where
  "show_int i = (if i < 0 then CHR ''-'' # show_nat (nat (- i)) else show_nat (nat i))"

text \<open>The class \<open>\s\<close> of the regular expression, on the 8-bit characters of the model.\<close>

definition is_space :: "char \<Rightarrow> bool" where
  "is_space c = (of_char c \<in> {9, 10, 11, 12, 13, 32, 160 :: nat})"

definition replace_spaces :: "string \<Rightarrow> string" where
  "replace_spaces s = map (\<lambda>c. if is_space c then CHR ''_'' else c) s"

fun nth_opt :: "'a list \<Rightarrow> nat \<Rightarrow> 'a option" where
  "nth_opt [] i = None"
| "nth_opt (a # as) 0 = Some a"
| "nth_opt (a # as) (Suc i) = nth_opt as i"

section \<open>Mock data generators\<close>

definition SURFACE_BOUNCE :: "string \<rightharpoonup> real" where
  "SURFACE_BOUNCE =
     map_of [(''concrete'', 13 / 10), (''turf'', 1), (''matting'', 9 / 10), (''mud'', 6 / 10)]"

record SpeedRange =
  pace :: "real \<times> real"
  spin :: "real \<times> real"

definition BALL_SPEED_RANGES :: "string \<rightharpoonup> SpeedRange" where
  "BALL_SPEED_RANGES =
     map_of [(''tennis'', \<lparr>pace = (100, 120), spin = (60, 80)\<rparr>),
             (''tape'', \<lparr>pace = (110, 130), spin = (65, 85)\<rparr>),
             (''leather'', \<lparr>pace = (125, 155), spin = (75, 100)\<rparr>)]"

text \<open>
  \<^verbatim>\<open>TABLE[key]\<close> on an object literal finds the literal's own member, or else a member
  inherited from \<^verbatim>\<open>Object.prototype\<close>, or else \<open>undefined\<close>. The inherited members
  are functions (\<^verbatim>\<open>__proto__\<close> is the prototype object): none is \<open>null\<close> or
  \<open>undefined\<close>, so \<open>??\<close> keeps them.
\<close>

definition Object_prototype_keys :: "string list" where
  "Object_prototype_keys =
     [''constructor'', ''__defineGetter__'', ''__defineSetter__'', ''hasOwnProperty'',
      ''__lookupGetter__'', ''__lookupSetter__'', ''isPrototypeOf'', ''propertyIsEnumerable'',
      ''toString'', ''valueOf'', ''__proto__'', ''toLocaleString'']"

datatype 'a member = Own 'a | Inherited | Missing

definition object_read :: "(string \<rightharpoonup> 'a) \<Rightarrow> string \<Rightarrow> 'a member" where
  "object_read table k =
     (case table k of
        Some v \<Rightarrow> Own v
      | None \<Rightarrow> if k \<in> set Object_prototype_keys then Inherited else Missing)"

text \<open>
  \<^verbatim>\<open>SURFACE_BOUNCE[settings.pitch_surface] ?? 1.0\<close>. The factor is only ever multiplied
  with a number; the product with an inherited member is \<open>NaN\<close>, so such a member
  stands here as \<open>NaN\<close>.
\<close>

definition bounce_factor :: "AnalysisSettings \<Rightarrow> jsnum" where
  "bounce_factor settings =
     (case object_read SURFACE_BOUNCE (pitch_surface settings) of
        Own b \<Rightarrow> Num b
      | Inherited \<Rightarrow> NaN
      | Missing \<Rightarrow> Num 1)"

text \<open>
  One loop of \<open>generateTrajectory\<close>: every iteration draws once (for \<open>y\<close>) and pushes
  one point.
\<close>

fun push_points ::
  "(nat \<Rightarrow> real \<Rightarrow> TrajectoryPoint) \<Rightarrow> nat list \<Rightarrow> int \<Rightarrow> TrajectoryPoint list \<times> int" where
  "push_points f [] rng = ([], rng)"
| "push_points f (i # rest) rng =
     (let (d, rng1) = rng_next rng;
          (ps, rng2) = push_points f rest rng1
      in (f i d # ps, rng2))"

definition generateTrajectory :: "int \<Rightarrow> AnalysisSettings \<Rightarrow> TrajectoryPoint list \<times> int" where
  "generateTrajectory rng settings =
     (let (d1, rng1) = rng_next rng;
          bounceX = 120 + d1 * 60;
          (d2, rng2) = rng_next rng1;
          impactX = 220 + d2 * 40;
          bounceFactor = bounce_factor settings;
          lengthScale = pitch_length settings / 22;
          (seg1, rng3) = push_points (\<lambda>i d. let t = real i / 10 in
              \<lparr>tp_x = t * bounceX * lengthScale,
               tp_y = 50 + (d - 1 / 2) * 10,
               tp_z = Num (200 - t * 180 + (t * t) * 20)\<rparr>) [0..<11] rng2;
          (seg2, rng4) = push_points (\<lambda>i d. let t = real i / 10 in
              \<lparr>tp_x = (bounceX + t * (impactX - bounceX)) * lengthScale,
               tp_y = 50 + (d - 1 / 2) * 10,
               tp_z = times_num (20 + t * 40 - (t * t) * 20) bounceFactor\<rparr>) [1..<11] rng3;
          (seg3, rng5) = push_points (\<lambda>i d. let t = real i / 5 in
              \<lparr>tp_x = (impactX + t * (300 - impactX)) * lengthScale,
               tp_y = 50 + (d - 1 / 2) * 15,
               tp_z = times_num (40 + sin (t * pi) * 20) bounceFactor\<rparr>) [1..<6] rng4
      in (seg1 @ seg2 @ seg3, rng5))"

text \<open>
  \<open>generateBallMetrics\<close>. When \<^verbatim>\<open>BALL_SPEED_RANGES[settings.ball_type]\<close> is an
  inherited member, its \<open>pace\<close> and \<open>spin\<close> are \<open>undefined\<close> and the destructuring
  \<^verbatim>\<open>const [minSpeed, maxSpeed] = ...\<close> raises a TypeError, after the first draw.
\<close>

definition generateBallMetrics ::
  "int \<Rightarrow> AnalysisSettings \<Rightarrow> string + (BallMetrics \<times> int)" where
  "generateBallMetrics rng settings =
     (let ballTypes = [inswing, outswing, seam, offspin, legspin, straight];
          (d1, rng1) = rng_next rng;
          bt = nth_opt ballTypes (nat \<lfloor>d1 * real (length ballTypes)\<rfloor>);
          isSpin = (bt = Some offspin \<or> bt = Some legspin)
      in case object_read BALL_SPEED_RANGES (ball_type settings) of
           Inherited \<Rightarrow> Inl ''TypeError''
         | found \<Rightarrow>
             (let speedRange = (case found of
                                  Own r \<Rightarrow> r
                                | other \<Rightarrow> \<lparr>pace = (100, 120), spin = (60, 80)\<rparr>);
                  (minSpeed, maxSpeed) = (if isSpin then spin speedRange else pace speedRange);
                  (d2, rng2) = rng_next rng1;
                  (d3, rng3) = rng_next rng2;
                  (d4, rng4) = rng_next rng3;
                  (sr, rng5) = (if isSpin
                                then (let (d5, r) = rng_next rng4 in (Some (1500 + d5 * 1500), r))
                                else (None, rng4));
                  (d6, rng6) = rng_next rng5;
                  (d7, rng7) = rng_next rng6
              in Inr (\<lparr>speed = minSpeed + d2 * (maxSpeed - minSpeed),
                        releaseSpeed = minSpeed + 10 + d3 * (maxSpeed - minSpeed),
                        impactSpeed = minSpeed - 5 + d4 * (maxSpeed - minSpeed - 5),
                        spinRate = sr,
                        swingDeviation = 2 + d6 * 8,
                        ballType = bt,
                        angleOfEntry = 5 + d7 * 15\<rparr>, rng7)))"

definition generatePitchAnalysis ::
  "bool \<Rightarrow> int \<Rightarrow> AnalysisSettings \<Rightarrow> PitchAnalysis \<times> int" where
  "generatePitchAnalysis pitchedInLine' rng settings =
     (let (zone, rng1) = (if pitchedInLine'
                          then (let (d, r) = rng_next rng
                                in (if d > 1 / 2 then inline else outside_off, r))
                          else (outside_leg, rng));
          bounceFactor = bounce_factor settings;
          (d2, rng2) = rng_next rng1;
          (d3, rng3) = rng_next rng2;
          (d4, rng4) = rng_next rng3
      in (\<lparr>pa_zone = zone,
           pa_distanceFromLegStump = (if zone = outside_leg then 5 + d2 * 30 else - (10 + d2 * 40)),
           pa_distanceFromOffStump = (if zone = outside_off then 5 + d3 * 20 else - (15 + d3 * 50)),
           bounceAngle = times_num (12 + d4 * 10) bounceFactor\<rparr>, rng4))"

definition generateImpactAnalysis ::
  "bool \<Rightarrow> int \<Rightarrow> AnalysisSettings \<Rightarrow> ImpactAnalysis \<times> int" where
  "generateImpactAnalysis impactInLine' rng settings =
     (let (zone, rng1) = (if impactInLine' then (inline, rng)
                          else (let (d, r) = rng_next rng
                                in (if d > 1 / 2 then outside_off else outside_leg, r)));
          (d2, rng2) = rng_next rng1;
          height' = 15 + d2 * 50;
          stumpHeight' = stump_height settings * (254 / 100);
          (d3, rng3) = rng_next rng2;
          distFromLeg = (if zone = outside_leg then 5 + d3 * 20 else - (5 + d3 * 30));
          (isMarginally, rng4) =
             (if \<bar>distFromLeg\<bar> < 5 then (True, rng3)
              else if zone = inline then (let (d, r) = rng_next rng3 in (d > 7 / 10, r))
              else (False, rng3));
          (d5, rng5) = rng_next rng4
      in (\<lparr>ia_zone = zone,
           height = height',
           stumpHeight = stumpHeight',
           isAboveStumps = (height' > stumpHeight'),
           ia_distanceFromLegStump = distFromLeg,
           ia_distanceFromOffStump = (if zone = outside_off then 5 + d5 * 15 else - (20 + d5 * 40)),
           ia_umpiresCall = (if isMarginally then UMPIRES_CALL else CLEAR)\<rparr>, rng5))"

definition generateWicketPrediction :: "bool \<Rightarrow> int \<Rightarrow> WicketPrediction \<times> int" where
  "generateWicketPrediction wouldHit' rng =
     (let stumps = [leg, middle, off, missing_leg, missing_off, over];
          (d1, rng1) = rng_next rng;
          sh = (if wouldHit' then nth_opt stumps (nat \<lfloor>d1 * 3\<rfloor>)
                else nth_opt stumps (3 + nat \<lfloor>d1 * 3\<rfloor>));
          (d2, rng2) = rng_next rng1;
          hp = (if wouldHit' then 25 + d2 * 75 else d2 * 25);
          isUC = (hp \<ge> 25 \<and> hp < 50);
          (d3, rng3) = rng_next rng2
      in (\<lparr>wouldHit = wouldHit',
           hitPercentage = hp,
           stumpHit = sh,
           wp_umpiresCall = (if isUC then UMPIRES_CALL else CLEAR),
           marginOfError = 1 + d3 * 3\<rparr>, rng3))"

definition createAnalysisSteps :: "AnalysisStep list" where
  "createAnalysisSteps =
     [\<lparr>step_id = ''preprocessing'', step_name = ''Frame Preprocessing'',
       step_description = ''Extracting and normalizing video frames'',
       status = pending, step_data = None\<rparr>,
      \<lparr>step_id = ''ball-detection'', step_name = ''Ball Detection'',
       step_description = ''Identifying cricket ball position in each frame'',
       status = pending, step_data = None\<rparr>,
      \<lparr>step_id = ''leg-detection'', step_name = ''Leg Detection'',
       step_description = ''Detecting batsman leg position and bounding box'',
       status = pending, step_data = None\<rparr>,
      \<lparr>step_id = ''impact-detection'', step_name = ''Impact Analysis'',
       step_description = ''Determining ball-leg contact point'',
       status = pending, step_data = None\<rparr>,
      \<lparr>step_id = ''bounce-detection'', step_name = ''Bounce Detection'',
       step_description = ''Identifying pitch bounce location'',
       status = pending, step_data = None\<rparr>,
      \<lparr>step_id = ''trajectory'', step_name = ''Trajectory Calculation'',
       step_description = ''Computing ball path and extrapolation'',
       status = pending, step_data = None\<rparr>,
      \<lparr>step_id = ''wicket-prediction'', step_name = ''Wicket Hit Prediction'',
       step_description = ''Predicting if ball would hit stumps'',
       status = pending, step_data = None\<rparr>]"

definition completed_steps :: "AnalysisStep list" where
  "completed_steps = map (\<lambda>step. step\<lparr>status := completed\<rparr>) createAnalysisSteps"

definition generateMockKeyFrames :: "int \<Rightarrow> KeyFrame list \<times> int" where
  "generateMockKeyFrames rng =
     (let (d1, rng1) = rng_next rng;
          (d2, rng2) = rng_next rng1;
          (d3, rng3) = rng_next rng2;
          (d4, rng4) = rng_next rng3;
          (d5, rng5) = rng_next rng4;
          (d6, rng6) = rng_next rng5;
          (d7, rng7) = rng_next rng6;
          (d8, rng8) = rng_next rng7
      in ([\<lparr>kf_type = release, frameNumber = 5 + \<lfloor>d1 * 10\<rfloor>, timestamp = 2 / 10 + d2 * (3 / 10),
            imageUrl = ''@/assets/frames/release-frame.jpg'', kf_label = ''Ball Release'',
            kf_description = ''The moment the bowler releases the ball''\<rparr>,
           \<lparr>kf_type = bounce, frameNumber = 25 + \<lfloor>d3 * 15\<rfloor>, timestamp = 8 / 10 + d4 * (4 / 10),
            imageUrl = ''@/assets/frames/bounce-frame.jpg'', kf_label = ''Ball Pitching'',
            kf_description = ''Ball pitches inline, good length''\<rparr>,
           \<lparr>kf_type = impact, frameNumber = 45 + \<lfloor>d5 * 20\<rfloor>, timestamp = 15 / 10 + d6 * (5 / 10),
            imageUrl = ''@/assets/frames/impact-frame.jpg'', kf_label = ''Ball Impact'',
            kf_description = ''Impact inline, middle height''\<rparr>,
           \<lparr>kf_type = wicket, frameNumber = 60 + \<lfloor>d7 * 25\<rfloor>, timestamp = 2 + d8 * (6 / 10),
            imageUrl = ''@/assets/frames/wicket-frame.jpg'', kf_label = ''Wicket Projection'',
            kf_description = ''Ball hitting middle stump (85% confidence)''\<rparr>], rng8))"

text \<open>
  \<open>generateAnalysisResult\<close>. The draws are made in the order of the source text; the
  clock read by \<^verbatim>\<open>new Date()\<close> is the argument \<open>now\<close>. A TypeError raised by
  \<open>generateBallMetrics\<close> leaves the function.
\<close>

definition generateAnalysisResult ::
  "string \<Rightarrow> int \<Rightarrow> AnalysisSettings \<Rightarrow> int \<Rightarrow> string + AnalysisResult" where
  "generateAnalysisResult videoName' seed settings now =
     (let rng = seed;
          (d1, rng1) = rng_next rng;
          decision' = (if d1 > 45 / 100 then OUT else NOT_OUT);
          (d2, rng2) = rng_next rng1;
          confidence' = 65 + d2 * 30;
          (d3, rng3) = rng_next rng2;
          (d4, rng4) = rng_next rng3;
          (d5, rng5) = rng_next rng4;
          (d6, rng6) = rng_next rng5;
          drawn = \<lparr>pitchedInLine = (d3 > 3 / 10),
                   impactInLine = (d4 > 35 / 100),
                   legBeforeBat = (d5 > 25 / 100),
                   wouldHitWickets = (if decision' = OUT then d6 > 2 / 10 else d6 > 7 / 10)\<rparr>;
          criteria' = (if decision' = OUT
                       then drawn\<lparr>pitchedInLine := True, impactInLine := True,
                                  legBeforeBat := True, wouldHitWickets := True\<rparr>
                       else drawn)
      in case generateBallMetrics rng6 settings of
           Inl e \<Rightarrow> Inl e
         | Inr (ballMetrics', rng7) \<Rightarrow>
             (let (pitchAnalysis', rng8) = generatePitchAnalysis (pitchedInLine criteria') rng7 settings;
                   (impactAnalysis', rng9) = generateImpactAnalysis (impactInLine criteria') rng8 settings;
                   (wicketPrediction', rng10) = generateWicketPrediction (wouldHitWickets criteria') rng9;
                   isUmpiresCall' = (ia_umpiresCall impactAnalysis' = UMPIRES_CALL
                                     \<or> wp_umpiresCall wicketPrediction' = UMPIRES_CALL);
                   (trajectory', rng11) = generateTrajectory rng10 settings;
                   (d12, rng12) = rng_next rng11;
                   (d13, rng13) = rng_next rng12;
                   (pwh, rng14) = (if wouldHitWickets criteria'
                                   then (let (d, r) = rng_next rng13
                                         in (Some \<lparr>pos_x = 300, pos_y = 48 + d * 4\<rparr>, r))
                                   else (None, rng13));
                   (keyFrames', rng15) = generateMockKeyFrames rng14
              in Inr \<lparr>result_id = ''analysis-'' @ show_int seed @ ''-'' @ replace_spaces videoName',
                   videoId = ''video-'' @ show_int seed,
                   videoName = videoName',
                   videoThumbnail = ''/placeholder.svg'',
                   decision = decision',
                   confidence = confidence',
                   criteria = criteria',
                   steps = completed_steps,
                   trajectory = trajectory',
                   impactPoint = \<lparr>pos_x = 230 + d12 * 20, pos_y = 50\<rparr>,
                   bouncePoint = \<lparr>pos_x = 130 + d13 * 40, pos_y = 50\<rparr>,
                   predictedWicketHit = pwh,
                   createdAt = ValidDate now,
                   ballMetrics = Some ballMetrics',
                   pitchAnalysis = Some pitchAnalysis',
                   impactAnalysis = Some impactAnalysis',
                   wicketPrediction = Some wicketPrediction',
                   isUmpiresCall = Some isUmpiresCall',
                   keyFrames = Some keyFrames'\<rparr>))"

section \<open>Values received from outside\<close>

text \<open>
  A value as \<open>JSON.parse\<close> or a property read can give it. Property reads on \<open>null\<close> and \<open>undefined\<close> raise a
  TypeError; on any other value a key that is not there reads as \<open>undefined\<close> (the keys
  read below are none of the built-in ones of strings and arrays).
\<close>

datatype json =
    JUndefined
  | JNull
  | JBool bool
  | JNumber jsnum
  | JString string
  | JArray "json list"
  | JObject "(string \<times> json) list"

datatype 'a reply = Reply 'a | Failure string

text \<open>
  The result of awaiting a promise of this program: it resolves, rejects with a message,
  or never settles.
\<close>

datatype 'a outcome = Returns 'a | Throws string | Hangs

fun truthy :: "json \<Rightarrow> bool" where
  "truthy JUndefined = False"
| "truthy JNull = False"
| "truthy (JBool b) = b"
| "truthy (JNumber n) = (n \<noteq> Num 0 \<and> n \<noteq> NaN)"
| "truthy (JString s) = (s \<noteq> [])"
| "truthy (JArray vs) = True"
| "truthy (JObject kvs) = True"

definition nullish :: "json \<Rightarrow> bool" where
  "nullish v = (v = JUndefined \<or> v = JNull)"

text \<open>\<open>a || b\<close> and \<open>a ?? b\<close>.\<close>

definition or_else :: "json \<Rightarrow> json \<Rightarrow> json" where
  "or_else a b = (if truthy a then a else b)"

definition nullish_or :: "json \<Rightarrow> json \<Rightarrow> json" where
  "nullish_or a b = (if nullish a then b else a)"

text \<open>\<open>v.k\<close> on a value that is not \<open>null\<close> or \<open>undefined\<close>, and \<open>v?.k\<close>.\<close>

fun get_prop :: "json \<Rightarrow> string \<Rightarrow> json" where
  "get_prop (JObject kvs) k = (case map_of kvs k of Some v \<Rightarrow> v | None \<Rightarrow> JUndefined)"
| "get_prop v k = JUndefined"

definition opt_prop :: "json \<Rightarrow> string \<Rightarrow> json" where
  "opt_prop v k = (if nullish v then JUndefined else get_prop v k)"

text \<open>
  Library functions of the platform whose full behaviour is not part of this program:
  \<open>String\<close> and \<open>Number\<close> on values that are not already a string or a number,
  the date parser and the JSON parser.
\<close>

record Platform =
  String_of :: "json \<Rightarrow> string"
  Number_of :: "json \<Rightarrow> jsnum"
  Date_parse :: "string \<Rightarrow> JsDate"
  JSON_parse :: "string \<Rightarrow> json reply"

definition js_String :: "Platform \<Rightarrow> json \<Rightarrow> string" where
  "js_String P v = (case v of JString s \<Rightarrow> s | _ \<Rightarrow> String_of P v)"

definition js_Number :: "Platform \<Rightarrow> json \<Rightarrow> jsnum" where
  "js_Number P v =
     (case v of
        JUndefined \<Rightarrow> NaN
      | JNull \<Rightarrow> Num 0
      | JBool b \<Rightarrow> Num (if b then 1 else 0)
      | JNumber n \<Rightarrow> n
      | _ \<Rightarrow> Number_of P v)"

text \<open>\<open>n || 0\<close> on a number.\<close>

definition num_or_zero :: "jsnum \<Rightarrow> jsnum" where
  "num_or_zero n = (if n = NaN \<or> n = Num 0 then Num 0 else n)"

section \<open>parseAnalysisResult\<close>

text \<open>
  The object built from a backend payload. A field that the source only casts
  (\<^verbatim>\<open>as Decision\<close>, \<^verbatim>\<open>as TrajectoryPoint[]\<close>) holds whatever the payload held;
  fields passed through \<open>String\<close>, \<open>Number\<close>, \<open>Boolean\<close> or \<open>new Date\<close> have that type.
\<close>

record ParsedResult =
  p_id :: string
  p_videoId :: string
  p_videoName :: string
  p_videoThumbnail :: string
  p_decision :: json
  p_confidence :: jsnum
  p_criteria :: LBWCriteria
  p_steps :: "json + AnalysisStep list"
  p_trajectory :: json
  p_impactPoint :: json
  p_bouncePoint :: json
  p_predictedWicketHit :: json
  p_createdAt :: JsDate
  p_ballMetrics :: json
  p_pitchAnalysis :: json
  p_impactAnalysis :: json
  p_wicketPrediction :: json
  p_isUmpiresCall :: bool

definition origin_point :: json where
  "origin_point = JObject [(''x'', JNumber (Num 0)), (''y'', JNumber (Num 0))]"

text \<open>The object literal that \<open>parseAnalysisResult\<close> returns.\<close>

definition parsed_object :: "Platform \<Rightarrow> int \<Rightarrow> json \<Rightarrow> ParsedResult" where
  "parsed_object P now result =
     (let crit = get_prop result ''criteria''
      in
           \<lparr>p_id = js_String P (or_else (get_prop result ''id'') (JString '''')),
            p_videoId = js_String P
               (or_else (or_else (get_prop result ''video_id'') (get_prop result ''videoId'')) (JString '''')),
            p_videoName = js_String P
               (or_else (or_else (get_prop result ''video_name'') (get_prop result ''videoName'')) (JString '''')),
            p_videoThumbnail = js_String P
               (or_else (or_else (get_prop result ''video_thumbnail'') (get_prop result ''videoThumbnail''))
                  (JString ''/placeholder.svg'')),
            p_decision = or_else (get_prop result ''decision'') (JString ''NOT_OUT''),
            p_confidence = num_or_zero (js_Number P (get_prop result ''confidence'')),
            p_criteria =
              \<lparr>pitchedInLine =
                 truthy (nullish_or (opt_prop crit ''pitched_in_line'') (opt_prop crit ''pitchedInLine'')),
               impactInLine =
                 truthy (nullish_or (opt_prop crit ''impact_in_line'') (opt_prop crit ''impactInLine'')),
               legBeforeBat =
                 truthy (nullish_or (opt_prop crit ''leg_before_bat'') (opt_prop crit ''legBeforeBat'')),
               wouldHitWickets =
                 truthy (nullish_or (opt_prop crit ''would_hit_wickets'')
                    (opt_prop crit ''wouldHitWickets''))\<rparr>,
            p_steps = (if truthy (get_prop result ''steps'') then Inl (get_prop result ''steps'')
                       else Inr completed_steps),
            p_trajectory = or_else (get_prop result ''trajectory'') (JArray []),
            p_impactPoint =
              or_else (or_else (get_prop result ''impact_point'') (get_prop result ''impactPoint'')) origin_point,
            p_bouncePoint =
              or_else (or_else (get_prop result ''bounce_point'') (get_prop result ''bouncePoint'')) origin_point,
            p_predictedWicketHit =
              or_else (or_else (get_prop result ''predicted_wicket_hit'') (get_prop result ''predictedWicketHit''))
                JNull,
            p_createdAt = Date_parse P (js_String P
               (or_else (or_else (get_prop result ''created_at'') (get_prop result ''createdAt''))
                  (JNumber (Num (real_of_int now))))),
            p_ballMetrics = or_else (get_prop result ''ball_metrics'') (get_prop result ''ballMetrics''),
            p_pitchAnalysis = or_else (get_prop result ''pitch_analysis'') (get_prop result ''pitchAnalysis''),
            p_impactAnalysis = or_else (get_prop result ''impact_analysis'') (get_prop result ''impactAnalysis''),
            p_wicketPrediction =
              or_else (get_prop result ''wicket_prediction'') (get_prop result ''wicketPrediction''),
            p_isUmpiresCall =
              truthy (nullish_or (get_prop result ''is_umpires_call'') (get_prop result ''isUmpiresCall''))\<rparr>)"

text \<open>
  \<^verbatim>\<open>const result = data as Record<string, unknown>\<close>: the first property read raises
  when the payload is \<open>null\<close> or \<open>undefined\<close>.
\<close>

definition parseAnalysisResult :: "Platform \<Rightarrow> int \<Rightarrow> json \<Rightarrow> string + ParsedResult" where
  "parseAnalysisResult P now data =
     (if nullish data then Inl ''TypeError'' else Inr (parsed_object P now data))"

text \<open>
  What the public functions hand to their callers: a record built by this program from
  typed parts, or the object built by \<open>parseAnalysisResult\<close>.
\<close>

datatype Report = Typed AnalysisResult | FromBackend ParsedResult

definition report_createdAt :: "Report \<Rightarrow> JsDate" where
  "report_createdAt r = (case r of Typed a \<Rightarrow> createdAt a | FromBackend p \<Rightarrow> p_createdAt p)"

definition report_id :: "Report \<Rightarrow> string" where
  "report_id r = (case r of Typed a \<Rightarrow> result_id a | FromBackend p \<Rightarrow> p_id p)"

definition report_videoName :: "Report \<Rightarrow> string" where
  "report_videoName r = (case r of Typed a \<Rightarrow> videoName a | FromBackend p \<Rightarrow> p_videoName p)"

section \<open>uploadToBackend: the event-stream client\<close>

text \<open>\<^verbatim>\<open>buffer.split('\n\n')\<close>: the pieces between the leftmost, non-overlapping delimiters.\<close>

fun split_frames :: "string \<Rightarrow> string list" where
  "split_frames [] = [[]]"
| "split_frames [c] = [[c]]"
| "split_frames (c # d # cs) =
     (if c = CHR 0x0A \<and> d = CHR 0x0A then [] # split_frames cs
      else (case split_frames (d # cs) of [] \<Rightarrow> [[c]] | f # fs \<Rightarrow> (c # f) # fs))"

fun startsWith :: "string \<Rightarrow> string \<Rightarrow> bool" where
  "startsWith s [] = True"
| "startsWith [] (p # ps) = False"
| "startsWith (c # cs) (p # ps) = (c = p \<and> startsWith cs ps)"

fun str_includes :: "string \<Rightarrow> string \<Rightarrow> bool" where
  "str_includes [] pat = (pat = [])"
| "str_includes (c # cs) pat = (startsWith (c # cs) pat \<or> str_includes cs pat)"

text \<open>
  A call of \<open>onStepUpdate\<close>: with the \<open>step\<close> member of a frame, cast but not checked,
  or with a step record built by this program.
\<close>

datatype StepUpdate = StepJson json | StepTyped AnalysisStep

datatype Dispatch = Continue | Resolve ParsedResult | Reject string

text \<open>
  The body of the \<open>for\<close> loop for a line that starts with \<^verbatim>\<open>data: \<close>. A failure of
  \<open>JSON.parse\<close>, a payload that is \<open>null\<close> and a \<open>result\<close> member that is
  \<open>null\<close> or missing raise inside the \<open>try\<close>, so the call is rejected.
  \<^verbatim>\<open>new Error(m)\<close> has the empty message when \<open>m\<close> is \<open>undefined\<close> and the
  message \<open>String(m)\<close> otherwise.
\<close>

definition error_message :: "Platform \<Rightarrow> json \<Rightarrow> string" where
  "error_message P m = (if m = JUndefined then [] else js_String P m)"

definition dispatch_frame :: "Platform \<Rightarrow> int \<Rightarrow> string \<Rightarrow> StepUpdate list \<times> Dispatch" where
  "dispatch_frame P now line =
     (case JSON_parse P (drop 6 line) of
        Failure e \<Rightarrow> ([], Reject e)
      | Reply data \<Rightarrow>
          if nullish data then ([], Reject ''TypeError'')
          else if get_prop data ''type'' = JString ''step''
            then ([StepJson (get_prop data ''step'')], Continue)
          else if get_prop data ''type'' = JString ''result''
            then (case parseAnalysisResult P now (get_prop data ''result'') of
                    Inl e \<Rightarrow> ([], Reject e)
                  | Inr r \<Rightarrow> ([], Resolve r))
          else if get_prop data ''type'' = JString ''error''
            then ([], Reject (error_message P (get_prop data ''message'')))
          else ([], Continue))"

text \<open>
  The \<open>for\<close> loop over the complete lines of one read. It returns the arguments given to
  \<open>JSON.parse\<close>, the calls of \<open>onStepUpdate\<close>, and how the loop ended.
\<close>

fun process_lines ::
  "Platform \<Rightarrow> int \<Rightarrow> string list \<Rightarrow> string list \<times> StepUpdate list \<times> Dispatch" where
  "process_lines P now [] = ([], [], Continue)"
| "process_lines P now (line # rest) =
     (if startsWith line ''data: ''
      then (case dispatch_frame P now line of
              (ups, Continue) \<Rightarrow>
                 (let (ps, ups', d) = process_lines P now rest
                  in (drop 6 line # ps, ups @ ups', d))
            | (ups, d) \<Rightarrow> ([drop 6 line], ups, d))
      else process_lines P now rest)"

text \<open>
  The \<open>while\<close> loop of \<open>processEvents\<close> over the successive reads of the body, each
  already decoded to text. The stream ends by \<open>done\<close> (\<open>None\<close>) or by a read that
  rejects (\<open>Some\<close> of the message). After \<open>done\<close> neither \<open>resolve\<close> nor
  \<open>reject\<close> is called, and the buffer is dropped.
\<close>

fun read_loop ::
  "Platform \<Rightarrow> int \<Rightarrow> string option \<Rightarrow> string \<Rightarrow> string list
     \<Rightarrow> string list \<times> StepUpdate list \<times> ParsedResult outcome" where
  "read_loop P now ending buffer [] =
     ([], [], (case ending of None \<Rightarrow> Hangs | Some e \<Rightarrow> Throws e))"
| "read_loop P now ending buffer (chunk # chunks) =
     (let buffer1 = buffer @ chunk;
          lines = split_frames buffer1;
          buffer2 = last lines;
          (ps, ups, d) = process_lines P now (butlast lines)
      in case d of
           Continue \<Rightarrow>
             (let (ps', ups', out) = read_loop P now ending buffer2 chunks
              in (ps @ ps', ups @ ups', out))
         | Resolve r \<Rightarrow> (ps, ups, Returns r)
         | Reject e \<Rightarrow> (ps, ups, Throws e))"

definition processEvents ::
  "Platform \<Rightarrow> int \<Rightarrow> string option \<Rightarrow> string list
     \<Rightarrow> string list \<times> StepUpdate list \<times> ParsedResult outcome" where
  "processEvents P now ending chunks = read_loop P now ending [] chunks"

text \<open>The complete frames of a payload: all pieces of the split but the last.\<close>

definition complete_frames :: "string \<Rightarrow> string list" where
  "complete_frames payload = butlast (split_frames payload)"

record HttpResponse =
  resp_ok :: bool
  resp_text :: "string reply"
  content_type :: "string option"
  resp_body :: "(string list \<times> string option) option"
  resp_json :: "json reply"

definition uploadToBackend ::
  "Platform \<Rightarrow> int \<Rightarrow> HttpResponse reply \<Rightarrow> StepUpdate list \<times> ParsedResult outcome" where
  "uploadToBackend P now fetched =
     (case fetched of
        Failure e \<Rightarrow> ([], Throws e)
      | Reply response \<Rightarrow>
          if \<not> resp_ok response
          then (case resp_text response of
                  Failure e \<Rightarrow> ([], Throws e)
                | Reply err \<Rightarrow> ([], Throws (''Analysis failed: '' @ err)))
          else if (case content_type response of
                     None \<Rightarrow> False
                   | Some ct \<Rightarrow> str_includes ct ''text/event-stream'')
          then (case resp_body response of
                  None \<Rightarrow> ([], Throws ''No response body'')
                | Some (chunks, ending) \<Rightarrow>
                    (let (ps, ups, out) = processEvents P now ending chunks in (ups, out)))
          else (case resp_json response of
                  Failure e \<Rightarrow> ([], Throws e)
                | Reply result \<Rightarrow>
                    (let ups = map (\<lambda>step. StepTyped (step\<lparr>status := completed\<rparr>))
                                 createAnalysisSteps
                     in case parseAnalysisResult P now result of
                          Inl e \<Rightarrow> (ups, Throws e)
                        | Inr r \<Rightarrow> (ups, Returns r))))"

section \<open>generateFileHash\<close>

text \<open>
  A file: its name, its bytes, its modification stamp, and which of its chunks can be
  read (\<open>arrayBuffer\<close> rejects on the others).
\<close>

record JsFile =
  file_name :: string
  file_bytes :: "8 word list"
  lastModified :: int
  chunk_readable :: "nat \<Rightarrow> bool"

definition chunkSize :: nat where
  "chunkSize = 1024 * 1024"

definition FNV_PRIME :: "32 word" where
  "FNV_PRIME = 16777619"

text \<open>The bytes at the indices \<open>0, r, 2r, ...\<close>.\<close>

fun sample_bytes :: "nat \<Rightarrow> 'a list \<Rightarrow> 'a list" where
  "sample_bytes r [] = []"
| "sample_bytes r (b # bs) = b # sample_bytes r (drop (r - 1) bs)"

definition hash_chunk :: "32 word \<Rightarrow> 8 word list \<Rightarrow> 32 word" where
  "hash_chunk hash bytes =
     (let sampleRate = max 1 (length bytes div 1000)
      in fold (\<lambda>b h. (h XOR ucast b) * FNV_PRIME) (sample_bytes sampleRate bytes) hash)"

text \<open>
  The loop over the chunks inside the \<open>try\<close>. It returns the hash, or the failure that
  leaves the \<open>try\<close>, and the calls of \<open>onProgress\<close> made so far.
\<close>

fun read_chunks ::
  "JsFile \<Rightarrow> nat \<Rightarrow> nat list \<Rightarrow> 32 word \<Rightarrow> real list \<Rightarrow> (string + 32 word) \<times> real list" where
  "read_chunks file totalChunks [] hash prog = (Inr hash, prog)"
| "read_chunks file totalChunks (chunkIndex # rest) hash prog =
     (let start = chunkIndex * chunkSize;
          end' = min (start + chunkSize) (length (file_bytes file))
      in if chunk_readable file chunkIndex
         then (let bytes = take (end' - start) (drop start (file_bytes file));
                   hash' = hash_chunk hash bytes;
                   progress = (real (chunkIndex + 1) / real totalChunks) * 100
               in read_chunks file totalChunks rest hash' (prog @ [min progress 99]))
         else (Inl ''NotReadableError'', prog))"

text \<open>The \<open>catch\<close> branch: a polynomial hash of name, size and modification stamp.\<close>

definition metadata_hash :: "JsFile \<Rightarrow> int" where
  "metadata_hash file =
     (let str = file_name file @ ''-'' @ show_nat (length (file_bytes file)) @ ''-''
                  @ show_int (lastModified file);
          hash = fold (\<lambda>c h. (push_bit 5 h - h) + of_nat (of_char c)) str (0 :: 32 word)
      in \<bar>sint hash\<bar>)"

record FileHashRun =
  seed_of :: int
  progress_calls :: "real list"
  warnings :: "string list"

definition generateFileHash :: "JsFile \<Rightarrow> FileHashRun" where
  "generateFileHash file =
     (let size' = length (file_bytes file);
          totalChunks = (size' + chunkSize - 1) div chunkSize;
          (r, prog) = read_chunks file totalChunks [0..<totalChunks] 2166136261 []
      in case r of
           Inr hash \<Rightarrow>
             (let hash2 = (hash XOR of_nat size') * FNV_PRIME
              in \<lparr>seed_of = uint hash2, progress_calls = prog @ [100], warnings = []\<rparr>)
         | Inl err \<Rightarrow>
             \<lparr>seed_of = metadata_hash file, progress_calls = prog @ [100],
              warnings = [''Failed to read file content, falling back to metadata hash:'']\<rparr>)"

section \<open>The durable store (analysisDbService.ts)\<close>

text \<open>
  An awaited call of the store client either raises or gives \<open>{ data, error }\<close>.
\<close>

datatype 'a supa = SupaThrows string | SupaResult "string option" "'a option"

definition try_catch :: "(string + 'a) \<Rightarrow> (string \<Rightarrow> string + 'a) \<Rightarrow> string + 'a" where
  "try_catch body handler = (case body of Inl e \<Rightarrow> handler e | Inr v \<Rightarrow> Inr v)"

text \<open>
  The row written by \<open>toDbFormat\<close>. Its other columns (decision, confidence,
  umpires\_call, impact\_point, wicket\_point, trajectory, ball\_speed, ball\_spin,
  pitching\_zone, impact\_zone, key\_frames) are read from the report with casts, \<open>?.\<close> and
  \<open>??\<close> only; the row carries the report for them. \<open>toISOString\<close> raises a RangeError
  on an invalid date.
\<close>

record LbwAnalysisInsert =
  user_id :: string
  analysis_id :: string
  video_name :: string
  analysis_timestamp :: int
  other_columns :: Report

definition toDbFormat :: "Report \<Rightarrow> string \<Rightarrow> string + LbwAnalysisInsert" where
  "toDbFormat result userId =
     (case report_createdAt result of
        InvalidDate \<Rightarrow> Inl ''RangeError''
      | ValidDate t \<Rightarrow>
          Inr \<lparr>user_id = userId, analysis_id = report_id result,
               video_name = report_videoName result, analysis_timestamp = t,
               other_columns = result\<rparr>)"

text \<open>A row as read back, and the partial report \<open>fromDbFormat\<close> makes of it.\<close>

record LbwAnalysisRow =
  row_analysis_id :: string
  row_video_name :: string
  row_decision :: Decision
  row_confidence :: real
  row_umpires_call :: "bool option"
  row_impact_point :: "Position option"
  row_wicket_point :: "Position option"
  row_trajectory :: "TrajectoryPoint list option"
  row_key_frames :: "KeyFrame list option"
  row_analysis_timestamp :: string
  row_created_at :: string

record DbResult =
  db_id :: string
  db_videoName :: string
  db_decision :: Decision
  db_confidence :: real
  db_isUmpiresCall :: "bool option"
  db_impactPoint :: "Position option"
  db_predictedWicketHit :: "Position option"
  db_trajectory :: "TrajectoryPoint list"
  db_createdAt :: JsDate
  db_keyFrames :: "KeyFrame list option"

definition fromDbFormat :: "Platform \<Rightarrow> LbwAnalysisRow \<Rightarrow> DbResult" where
  "fromDbFormat P row =
     \<lparr>db_id = row_analysis_id row,
      db_videoName = row_video_name row,
      db_decision = row_decision row,
      db_confidence = row_confidence row,
      db_isUmpiresCall = row_umpires_call row,
      db_impactPoint = row_impact_point row,
      db_predictedWicketHit = row_wicket_point row,
      db_trajectory = (case row_trajectory row of Some t \<Rightarrow> t | None \<Rightarrow> []),
      db_createdAt = Date_parse P (if row_analysis_timestamp row \<noteq> []
                                   then row_analysis_timestamp row else row_created_at row),
      db_keyFrames = row_key_frames row\<rparr>"

text \<open>The replies of the store to the calls made by one function of the service.\<close>

record Store =
  getUser :: "string option reply"
  select_existing :: "string \<Rightarrow> string \<Rightarrow> string supa"
  update_row :: "string \<Rightarrow> LbwAnalysisInsert \<Rightarrow> unit supa"
  insert_row :: "LbwAnalysisInsert \<Rightarrow> unit supa"
  select_analysis :: "string \<Rightarrow> LbwAnalysisRow supa"

definition saveAnalysisToDb :: "Store \<Rightarrow> Report \<Rightarrow> string + bool" where
  "saveAnalysisToDb S result =
     try_catch
       (case getUser S of
          Failure e \<Rightarrow> Inl e
        | Reply None \<Rightarrow> Inr False
        | Reply (Some uid) \<Rightarrow>
            (case toDbFormat result uid of
               Inl e \<Rightarrow> Inl e
             | Inr dbData \<Rightarrow>
                 (case select_existing S uid (report_id result) of
                    SupaThrows e \<Rightarrow> Inl e
                  | SupaResult err existing \<Rightarrow>
                      (case (case existing of
                               Some rid \<Rightarrow> update_row S rid dbData
                             | None \<Rightarrow> insert_row S dbData) of
                         SupaThrows e \<Rightarrow> Inl e
                       | SupaResult (Some error') d \<Rightarrow> Inr False
                       | SupaResult None d \<Rightarrow> Inr True))))
       (\<lambda>err. Inr False)"

definition getAnalysisFromDb :: "Platform \<Rightarrow> Store \<Rightarrow> string \<Rightarrow> string + DbResult option" where
  "getAnalysisFromDb P S analysisId =
     try_catch
       (case select_analysis S analysisId of
          SupaThrows e \<Rightarrow> Inl e
        | SupaResult (Some error') d \<Rightarrow> Inr None
        | SupaResult None None \<Rightarrow> Inr None
        | SupaResult None (Some row) \<Rightarrow> Inr (Some (fromDbFormat P row)))
       (\<lambda>err. Inr None)"

definition isUserAuthenticated :: "string option reply \<Rightarrow> string + bool" where
  "isUserAuthenticated r =
     (case r of Failure e \<Rightarrow> Inl e | Reply user \<Rightarrow> Inr (user \<noteq> None))"

section \<open>getSettings (settingsService.ts)\<close>

definition DEFAULTS :: AnalysisSettings where
  "DEFAULTS =
     \<lparr>pitch_length = 22, pitch_width = 10, crease_distance = 4, pitch_surface = ''concrete'',
      ball_type = ''tennis'', stump_height = 28, stump_width = 9, confidence_threshold = 50,
      camera_angle = ''side'', camera_distance = ''medium''\<rparr>"

definition getSettings ::
  "string option reply \<Rightarrow> AnalysisSettings supa \<Rightarrow> string + AnalysisSettings" where
  "getSettings user_reply row_reply =
     (case user_reply of
        Failure e \<Rightarrow> Inl e
      | Reply None \<Rightarrow> Inr DEFAULTS
      | Reply (Some user) \<Rightarrow>
          (case row_reply of
             SupaThrows e \<Rightarrow> Inl e
           | SupaResult (Some error') d \<Rightarrow> Inr DEFAULTS
           | SupaResult None None \<Rightarrow> Inr DEFAULTS
           | SupaResult None (Some data) \<Rightarrow> Inr data))"

section \<open>Public functions: analyzeVideo and getAnalysisResult\<close>

text \<open>
  Everything outside the program that one call meets: the build flag, the platform, the
  replies of the store and of the backend, and the successive readings of the clock.
\<close>

record Env =
  USE_MOCK_API :: bool
  platform :: Platform
  settings_user :: "string option reply"
  settings_row :: "AnalysisSettings supa"
  analyze_fetch :: "HttpResponse reply"
  auth_user :: "string option reply"
  store :: Store
  result_fetch :: "string \<Rightarrow> HttpResponse reply"
  clock :: "nat \<Rightarrow> int"

record AnalyzeRun =
  returned :: "Report outcome"
  step_updates :: "StepUpdate list"
  file_progress :: "real list"
  storedAnalyses' :: "AnalysisResult list"

text \<open>The two step loops of the mock branch, as the steps emitted and the final steps.\<close>

definition replay_steps :: "AnalysisStep list \<Rightarrow> StepUpdate list" where
  "replay_steps steps' =
     concat (map (\<lambda>s. [StepTyped (s\<lparr>status := processing\<rparr>),
                        StepTyped (s\<lparr>status := completed\<rparr>)]) steps')"

definition finish_step :: "(nat \<Rightarrow> int) \<Rightarrow> nat \<times> AnalysisStep \<Rightarrow> AnalysisStep" where
  "finish_step clk p =
     (snd p)\<lparr>status := completed, step_data := Some (True, clk (fst p))\<rparr>"

definition run_steps :: "(nat \<Rightarrow> int) \<Rightarrow> AnalysisStep list \<Rightarrow> StepUpdate list \<times> AnalysisStep list" where
  "run_steps clk steps' =
     (concat (map (\<lambda>p. [StepTyped ((snd p)\<lparr>status := processing\<rparr>),
                         StepTyped (finish_step clk p)]) (enumerate 0 steps')),
      map (finish_step clk) (enumerate 0 steps'))"

definition analyzeVideo :: "Env \<Rightarrow> AnalysisResult list \<Rightarrow> JsFile \<Rightarrow> AnalyzeRun" where
  "analyzeVideo env storedAnalyses file =
     (case getSettings (settings_user env) (settings_row env) of
        Inl e \<Rightarrow>
          \<lparr>returned = Throws e, step_updates = [], file_progress = [],
           storedAnalyses' = storedAnalyses\<rparr>
      | Inr settings \<Rightarrow>
          if \<not> USE_MOCK_API env
          then
            (let (ups, uploaded) = uploadToBackend (platform env) (clock env 0) (analyze_fetch env)
             in \<lparr>returned =
                   (case uploaded of
                      Throws e \<Rightarrow> Throws e
                    | Hangs \<Rightarrow> Hangs
                    | Returns result \<Rightarrow>
                        (case saveAnalysisToDb (store env) (FromBackend result) of
                           Inl e \<Rightarrow> Throws e
                         | Inr saved \<Rightarrow> Returns (FromBackend result))),
                 step_updates = ups, file_progress = [100],
                 storedAnalyses' = storedAnalyses\<rparr>)
          else
            (let steps' = createAnalysisSteps;
                 hashed = generateFileHash file;
                 seed = seed_of hashed;
                 existingAnalysis =
                   find (\<lambda>a. result_id a
                            = ''analysis-'' @ show_int seed @ ''-'' @ replace_spaces (file_name file))
                     storedAnalyses
             in case existingAnalysis of
                  Some existing \<Rightarrow>
                    \<lparr>returned = Returns (Typed existing), step_updates = replay_steps steps',
                     file_progress = progress_calls hashed, storedAnalyses' = storedAnalyses\<rparr>
                | None \<Rightarrow>
                    (let (ups, done) = run_steps (clock env) steps'
                     in case generateAnalysisResult (file_name file) seed settings
                               (clock env (length steps')) of
                          Inl e \<Rightarrow>
                            \<lparr>returned = Throws e, step_updates = ups,
                             file_progress = progress_calls hashed,
                             storedAnalyses' = storedAnalyses\<rparr>
                        | Inr generated \<Rightarrow>
                            (let result = generated\<lparr>steps := done\<rparr>;
                                 saving =
                                   try_catch
                                     (case isUserAuthenticated (auth_user env) of
                                        Inl e \<Rightarrow> Inl e
                                      | Inr authenticated \<Rightarrow>
                                          if authenticated
                                          then (case saveAnalysisToDb (store env) (Typed result) of
                                                  Inl e \<Rightarrow> Inl e
                                                | Inr saved \<Rightarrow> Inr ())
                                          else Inr ())
                                     (\<lambda>err. Inr ())
                             in \<lparr>returned = (case saving of
                                               Inl e \<Rightarrow> Throws e
                                             | Inr u \<Rightarrow> Returns (Typed result)),
                                 step_updates = ups, file_progress = progress_calls hashed,
                                 storedAnalyses' = result # storedAnalyses\<rparr>))))"

text \<open>The object literal returned by \<open>getAnalysisResult\<close> when the store has the record.\<close>

definition default_criteria :: "Decision \<Rightarrow> LBWCriteria" where
  "default_criteria d =
     \<lparr>pitchedInLine = True, impactInLine = True, legBeforeBat = True,
      wouldHitWickets = (d = OUT)\<rparr>"

definition merge_db_result :: "DbResult \<Rightarrow> AnalysisResult option \<Rightarrow> string \<Rightarrow> AnalysisResult" where
  "merge_db_result dbResult mockAnalysis ident =
     \<lparr>result_id = db_id dbResult,
      videoId = (case mockAnalysis of
                   Some m \<Rightarrow> if videoId m \<noteq> [] then videoId m else ''video-'' @ ident
                 | None \<Rightarrow> ''video-'' @ ident),
      videoName = db_videoName dbResult,
      videoThumbnail = (case mockAnalysis of
                          Some m \<Rightarrow> if videoThumbnail m \<noteq> [] then videoThumbnail m
                                     else ''/placeholder.svg''
                        | None \<Rightarrow> ''/placeholder.svg''),
      decision = db_decision dbResult,
      confidence = db_confidence dbResult,
      criteria = (case mockAnalysis of
                    Some m \<Rightarrow> criteria m
                  | None \<Rightarrow> default_criteria (db_decision dbResult)),
      steps = (case mockAnalysis of Some m \<Rightarrow> steps m | None \<Rightarrow> completed_steps),
      trajectory = db_trajectory dbResult,
      impactPoint = (case db_impactPoint dbResult of
                       Some p \<Rightarrow> p
                     | None \<Rightarrow> \<lparr>pos_x = 230, pos_y = 50\<rparr>),
      bouncePoint = (case mockAnalysis of
                       Some m \<Rightarrow> bouncePoint m
                     | None \<Rightarrow> \<lparr>pos_x = 130, pos_y = 50\<rparr>),
      predictedWicketHit = db_predictedWicketHit dbResult,
      createdAt = db_createdAt dbResult,
      ballMetrics = (case mockAnalysis of Some m \<Rightarrow> ballMetrics m | None \<Rightarrow> None),
      pitchAnalysis = (case mockAnalysis of Some m \<Rightarrow> pitchAnalysis m | None \<Rightarrow> None),
      impactAnalysis = (case mockAnalysis of Some m \<Rightarrow> impactAnalysis m | None \<Rightarrow> None),
      wicketPrediction = (case mockAnalysis of Some m \<Rightarrow> wicketPrediction m | None \<Rightarrow> None),
      isUmpiresCall = db_isUmpiresCall dbResult,
      keyFrames = db_keyFrames dbResult\<rparr>"

definition getAnalysisResult :: "Env \<Rightarrow> AnalysisResult list \<Rightarrow> string \<Rightarrow> Report option" where
  "getAnalysisResult env storedAnalyses ident =
     (case try_catch
             (case isUserAuthenticated (auth_user env) of
                Inl e \<Rightarrow> Inl e
              | Inr authenticated \<Rightarrow>
                  if authenticated
                  then (case getAnalysisFromDb (platform env) (store env) ident of
                          Inl e \<Rightarrow> Inl e
                        | Inr None \<Rightarrow> Inr None
                        | Inr (Some dbResult) \<Rightarrow>
                            Inr (Some (merge_db_result dbResult
                                         (find (\<lambda>a. result_id a = ident) storedAnalyses) ident)))
                  else Inr None)
             (\<lambda>err. Inr None) of
        Inr (Some merged) \<Rightarrow> Some (Typed merged)
      | other \<Rightarrow>
          if \<not> USE_MOCK_API env
          then (case result_fetch env ident of
                  Failure e \<Rightarrow> None
                | Reply response \<Rightarrow>
                    if \<not> resp_ok response then None
                    else (case resp_json response of
                            Failure e \<Rightarrow> None
                          | Reply data \<Rightarrow>
                              (case parseAnalysisResult (platform env) (clock env 0) data of
                                 Inl e \<Rightarrow> None
                               | Inr r \<Rightarrow> Some (FromBackend r))))
          else map_option Typed (find (\<lambda>a. result_id a = ident) storedAnalyses))"

section \<open>Reference behaviour and sample surroundings\<close>

text \<open>
  The text a server writes for a sequence of frames, the same text cut after every
  delimiter, and what the read loop does when the whole text arrives in one read.
\<close>

fun join_frames :: "string list \<Rightarrow> string" where
  "join_frames [] = []"
| "join_frames [f] = f"
| "join_frames (f # g # fs) = f @ [CHR 0x0A, CHR 0x0A] @ join_frames (g # fs)"

definition whole_frame_chunks :: "string \<Rightarrow> string list" where
  "whole_frame_chunks payload =
     map (\<lambda>f. f @ [CHR 0x0A, CHR 0x0A]) (complete_frames payload) @ [last (split_frames payload)]"

definition end_outcome :: "string option \<Rightarrow> ParsedResult outcome" where
  "end_outcome ending = (case ending of None \<Rightarrow> Hangs | Some e \<Rightarrow> Throws e)"

definition single_read ::
  "Platform \<Rightarrow> int \<Rightarrow> string option \<Rightarrow> string
     \<Rightarrow> string list \<times> StepUpdate list \<times> ParsedResult outcome" where
  "single_read P now ending s =
     (case process_lines P now (butlast (split_frames s)) of
        (ps, ups, Continue) \<Rightarrow> (ps, ups, end_outcome ending)
      | (ps, ups, Resolve r) \<Rightarrow> (ps, ups, Returns r)
      | (ps, ups, Reject e) \<Rightarrow> (ps, ups, Throws e))"

text \<open>
  A platform whose coercions of other values give the empty string and \<open>NaN\<close>, whose
  date parser and JSON parser fail, and the same platform with a date parser that knows
  one date; a store with a signed-in user in which every write raises; a zero-byte file
  none of whose chunks could be read.
\<close>

definition bare_platform :: Platform where
  "bare_platform =
     \<lparr>String_of = (\<lambda>v. []), Number_of = (\<lambda>v. NaN), Date_parse = (\<lambda>s. InvalidDate),
      JSON_parse = (\<lambda>s. Failure ''SyntaxError'')\<rparr>"

definition dated_platform :: Platform where
  "dated_platform =
     bare_platform\<lparr>Date_parse :=
       (\<lambda>s. if s = ''2026-01-26T13:25:34Z'' then ValidDate 1769433934000 else InvalidDate)\<rparr>"

definition sample_row :: LbwAnalysisRow where
  "sample_row =
     \<lparr>row_analysis_id = ''id1'', row_video_name = ''net.mp4'', row_decision = NOT_OUT,
      row_confidence = 71, row_umpires_call = Some False, row_impact_point = None,
      row_wicket_point = None, row_trajectory = None, row_key_frames = None,
      row_analysis_timestamp = ''2026-01-26T13:25:34Z'', row_created_at = []\<rparr>"

definition raising_store :: Store where
  "raising_store =
     \<lparr>getUser = Reply (Some ''u1''),
      select_existing = (\<lambda>uid aid. SupaResult None None),
      update_row = (\<lambda>rid row. SupaThrows ''update failed''),
      insert_row = (\<lambda>row. SupaThrows ''insert failed''),
      select_analysis = (\<lambda>aid. SupaResult None (Some sample_row))\<rparr>"

definition empty_file :: JsFile where
  "empty_file =
     \<lparr>file_name = ''a.mp4'', file_bytes = [], lastModified = 0, chunk_readable = (\<lambda>i. False)\<rparr>"

definition json_response :: HttpResponse where
  "json_response =
     \<lparr>resp_ok = True, resp_text = Reply [], content_type = Some ''application/json'',
      resp_body = None,
      resp_json = Reply (JObject [(''id'', JString ''r1''), (''confidence'', JNumber (Num 88)),
                                  (''created_at'', JString ''2026-01-26T13:25:34Z'')])\<rparr>"

definition sample_env :: "bool \<Rightarrow> Env" where
  "sample_env mock =
     \<lparr>USE_MOCK_API = mock, platform = dated_platform, settings_user = Reply None,
      settings_row = SupaResult None None, analyze_fetch = Reply json_response,
      auth_user = Reply (Some ''u1''), store = raising_store,
      result_fetch = (\<lambda>i. Failure ''offline''), clock = (\<lambda>k. 1000 + int k)\<rparr>"

definition sample_memory_entry :: AnalysisResult where
  "sample_memory_entry =
     (projr (generateAnalysisResult ''net.mp4'' 12345 MOCK_DEFAULTS 0))\<lparr>result_id := ''id1''\<rparr>"


section \<open>Properties of the double rounding\<close>

lemma bit_length_le: "n < 2 ^ k \<Longrightarrow> bit_length n \<le> k"
proof (induction k arbitrary: n)
  case 0
  then show ?case by (simp add: bit_length.simps)
next
  case (Suc k)
  show ?case
  proof (cases "n \<le> 0")
    case True
    then show ?thesis by (simp add: bit_length.simps)
  next
    case False
    from Suc.prems have "n div 2 < 2 ^ k" by simp
    then have "bit_length (n div 2) \<le> k" by (rule Suc.IH)
    with False show ?thesis by (subst bit_length.simps) simp
  qed
qed

lemma bit_length_gt: "2 ^ k \<le> n \<Longrightarrow> k < bit_length n"
proof (induction k arbitrary: n)
  case 0
  then show ?case by (subst bit_length.simps) simp
next
  case (Suc k)
  from Suc.prems have pos: "\<not> n \<le> 0"
    by (smt (verit) zero_less_power)
  from Suc.prems have "2 ^ k \<le> n div 2" by simp
  then have "k < bit_length (n div 2)" by (rule Suc.IH)
  with pos show ?case by (subst bit_length.simps) simp
qed

lemma bit_length_lower: "0 < n \<Longrightarrow> 2 ^ (bit_length n - 1) \<le> n"
proof (rule ccontr)
  assume "0 < n" and "\<not> 2 ^ (bit_length n - 1) \<le> n"
  then have "n < 2 ^ (bit_length n - 1)" by simp
  then have "bit_length n \<le> bit_length n - 1" by (rule bit_length_le)
  moreover from \<open>0 < n\<close> have "0 < bit_length n" by (subst bit_length.simps) simp
  ultimately show False by simp
qed

lemma round_half_even_0: "round_half_even 0 n = n"
  by (simp add: round_half_even_def)

lemma to_double_exact: "\<bar>n\<bar> < 2 ^ 53 \<Longrightarrow> to_double n = n"
proof -
  assume "\<bar>n\<bar> < 2 ^ 53"
  then have "bit_length \<bar>n\<bar> \<le> 53" by (rule bit_length_le)
  then show ?thesis by (simp add: to_double_def round_half_even_0)
qed

lemma round_half_even_dvd: "2 ^ e dvd round_half_even e n"
  by (simp add: round_half_even_def Let_def)

lemma to_double_even: "2 ^ 53 \<le> \<bar>n\<bar> \<Longrightarrow> even (to_double n)"
proof -
  assume "2 ^ 53 \<le> \<bar>n\<bar>"
  then have "53 < bit_length \<bar>n\<bar>" by (rule bit_length_gt)
  then obtain e where e: "bit_length \<bar>n\<bar> - 53 = Suc e"
    by (metis Suc_diff_Suc)
  have "2 ^ Suc e dvd to_double n"
    unfolding to_double_def e by (rule round_half_even_dvd)
  then show ?thesis
    by (metis dvd_mult_left power_Suc)
qed

lemma round_half_even_close: "2 * \<bar>round_half_even e n - n\<bar> \<le> 2 ^ e"
proof -
  define P :: int where "P = 2 ^ e"
  define q where "q = n div P"
  define r where "r = n mod P"
  have P: "0 < P" by (simp add: P_def)
  have n: "n = q * P + r" by (simp add: q_def r_def)
  have r: "0 \<le> r" "r < P" using P by (simp_all add: r_def)
  have rhe: "round_half_even e n = (if 2 * r < P then q else if P < 2 * r then q + 1 else if even q then q else q + 1) * P"
    by (simp add: round_half_even_def Let_def P_def q_def r_def)
  show ?thesis
    unfolding rhe P_def [symmetric] using r n by (auto simp: algebra_simps)
qed

lemma to_double_close: "2 ^ 53 * \<bar>to_double n - n\<bar> \<le> \<bar>n\<bar>"
proof (cases "\<bar>n\<bar> < 2 ^ 53")
  case True
  then show ?thesis by (simp add: to_double_exact)
next
  case False
  then have big: "2 ^ 53 \<le> \<bar>n\<bar>" by simp
  define e where "e = bit_length \<bar>n\<bar> - 53"
  from big have bl: "53 < bit_length \<bar>n\<bar>" by (rule bit_length_gt)
  from big have "0 < \<bar>n\<bar>" by (smt (verit) zero_less_power)
  then have "2 ^ (bit_length \<bar>n\<bar> - 1) \<le> \<bar>n\<bar>" by (rule bit_length_lower)
  moreover from bl have "bit_length \<bar>n\<bar> - 1 = e + 52" by (simp add: e_def)
  ultimately have low: "(2::int) ^ e * 2 ^ 52 \<le> \<bar>n\<bar>" by (simp add: power_add)
  have "2 * \<bar>to_double n - n\<bar> \<le> 2 ^ e"
    unfolding to_double_def e_def by (rule round_half_even_close)
  then have "2 ^ 52 * (2 * \<bar>to_double n - n\<bar>) \<le> 2 ^ 52 * (2 ^ e :: int)"
    by (rule mult_left_mono) simp
  with low show ?thesis by (simp add: mult.commute)
qed


section \<open>Properties of SeededRandom\<close>

text \<open>
  In exact arithmetic one residue class of seeds modulo \<open>2 ^ 31\<close> is mapped to the state
  \<open>2 ^ 31 - 1\<close>; its members are too large for their product to be exact.
\<close>

lemma lcg_exact_not_max:
  assumes "(s * 1103515245 + 12345) mod 2147483648 = (2147483647::int)"
  shows "s \<le> - 8162279 \<or> 8162279 \<le> s"
proof -
  define q where "q = (s * 1103515245 + 12345) div 2147483648"
  have "s * 1103515245 + 12345 = q * 2147483648 + 2147483647"
    unfolding q_def using assms by (metis div_mult_mod_eq)
  then have "(s * 1103515245 + 12345) * 1857678181 = (q * 2147483648 + 2147483647) * 1857678181"
    by simp
  then have "s = 2147483648 * (q * 1857678181 - s * 954594553 + 1857667501) + 230538014"
    by (simp add: algebra_simps)
  then obtain z where z: "s = 2147483648 * z + 230538014" ..
  show ?thesis
  proof (cases "0 \<le> z")
    case True
    with z show ?thesis by simp
  next
    case False
    then have "z \<le> - 1" by simp
    with z show ?thesis by simp
  qed
qed

lemma lcg_step_not_max: "lcg_step s \<noteq> 2147483647"
proof
  assume eq: "lcg_step s = 2147483647"
  define p where "p = s * 1103515245"
  define m where "m = to_double p + 12345"
  have step: "lcg_step s = to_double m mod 2147483648"
    by (simp add: lcg_step_def m_def p_def)
  have odd: "odd (to_double m)"
  proof
    assume "even (to_double m)"
    then have "even (to_double m mod 2147483648)" by (simp add: dvd_mod_iff)
    with eq step show False by simp
  qed
  then have msmall: "\<bar>m\<bar> < 2 ^ 53"
    using to_double_even [of m] by fastforce
  then have mexact: "to_double m = m" by (rule to_double_exact)
  show False
  proof (cases "\<bar>p\<bar> < 2 ^ 53")
    case True
    then have "to_double p = p" by (rule to_double_exact)
    with eq step mexact have "(s * 1103515245 + 12345) mod 2147483648 = 2147483647"
      by (simp add: m_def p_def)
    then have "s \<le> - 8162279 \<or> 8162279 \<le> s" by (rule lcg_exact_not_max)
    with True show False by (auto simp: p_def)
  next
    case False
    then have big: "2 ^ 53 \<le> \<bar>p\<bar>" by simp
    then have ev: "even (to_double p)" by (rule to_double_even)
    have close: "2 ^ 53 * \<bar>to_double p - p\<bar> \<le> \<bar>p\<bar>" by (rule to_double_close)
    have "s \<le> - 8162279 \<or> 8162279 \<le> s"
      using big by (auto simp: p_def abs_if split: if_splits)
    then have "2 ^ 53 \<le> \<bar>m\<bar>"
    proof
      assume "s \<le> - 8162279"
      then have "p \<le> - 9007199310443355" by (simp add: p_def)
      with close show ?thesis by (simp add: m_def abs_if split: if_splits)
    next
      assume "8162279 \<le> s"
      then have "9007199310443355 \<le> p" by (simp add: p_def)
      with close show ?thesis by (simp add: m_def abs_if split: if_splits)
    qed
    with msmall show False by simp
  qed
qed


lemma lcg_step_range: "0 \<le> lcg_step s \<and> lcg_step s < 2147483647"
proof -
  have "0 \<le> lcg_step s" and "lcg_step s < 2147483648"
    by (simp_all add: lcg_step_def)
  moreover have "lcg_step s \<noteq> 2147483647" by (rule lcg_step_not_max)
  ultimately show ?thesis by simp
qed

text \<open>While the product and the sum fit 53 bits the recurrence is the exact one.\<close>

lemma lcg_step_exact:
  "\<bar>s * 1103515245\<bar> + 12345 < 2 ^ 53 \<Longrightarrow>
   lcg_step s = (s * 1103515245 + 12345) mod 2 ^ 31"
proof -
  assume a: "\<bar>s * 1103515245\<bar> + 12345 < 2 ^ 53"
  then have "\<bar>s * 1103515245\<bar> < 2 ^ 53" by simp
  then have p: "to_double (s * 1103515245) = s * 1103515245" by (rule to_double_exact)
  from a have "\<bar>s * 1103515245 + 12345\<bar> < 2 ^ 53" by simp
  then have "to_double (s * 1103515245 + 12345) = s * 1103515245 + 12345"
    by (rule to_double_exact)
  with p show ?thesis by (simp add: lcg_step_def)
qed

lemma rng_next_fst: "fst (rng_next s) = real_of_int (lcg_step s) / 2147483647"
  by (simp add: rng_next_def Let_def)

lemma rng_next_snd: "snd (rng_next s) = lcg_step s"
  by (simp add: rng_next_def Let_def)

lemma rng_next_unit: "0 \<le> fst (rng_next s) \<and> fst (rng_next s) < 1"
  using lcg_step_range [of s] by (simp add: rng_next_fst)

lemmas rng_eval = rng_next_def lcg_step_def to_double_def round_half_even_def bit_length.simps

lemma rng_next_12345: "rng_next 12345 = (1406932606 / 2147483647, 1406932606)"
  by (simp add: rng_eval)

text \<open>
  C8, as amended. For every integer seed (every 32-bit seed among them) and every number
  of earlier calls, \<open>next()\<close> returns a value in \<open>[0, 1)\<close>; it is the new state divided
  by \<open>2 ^ 31 - 1\<close>, and the new state is the low 31 bits of the double-precision value
  of \<open>state * 1103515245 + 12345\<close>, the product and the sum each rounded to 53
  significant bits.
\<close>

theorem rng_draw_unit_interval:
  "0 \<le> rng_draw seed n \<and> rng_draw seed n < 1
   \<and> rng_draw seed n = real_of_int (rng_state seed (Suc n)) / (2 ^ 31 - 1)
   \<and> rng_state seed (Suc n)
       = to_double (to_double (rng_state seed n * 1103515245) + 12345) mod 2 ^ 31"
  using rng_next_unit [of "rng_state seed n"]
  by (simp add: rng_draw_def rng_next_fst rng_next_snd lcg_step_def)

text \<open>
  The recurrence of C8 as stated, in exact integer arithmetic, already fails at the second
  call from seed 12345: the product \<open>1406932606 * 1103515245\<close> needs 61 bits.
\<close>

theorem rng_exact_recurrence_counterexample:
  "rng_state 12345 2 \<noteq> (rng_state 12345 1 * 1103515245 + 12345) mod 2 ^ 31"
proof -
  have s1: "rng_state 12345 1 = 1406932606"
    using rng_state.simps(2) [of 12345 0] by (simp add: rng_next_12345)
  have "rng_state 12345 2 = snd (rng_next (rng_state 12345 1))"
    using rng_state.simps(2) [of 12345 1] by (simp add: numeral_2_eq_2)
  also have "\<dots> = 654583808"
    unfolding s1 by (simp add: rng_eval)
  finally show ?thesis
    unfolding s1 by simp
qed

section \<open>Properties of the synthesized report\<close>

lemma generateBallMetrics_own:
  "object_read BALL_SPEED_RANGES (ball_type st) \<noteq> Inherited \<Longrightarrow>
   \<not> isl (generateBallMetrics rng st)"
  by (simp add: generateBallMetrics_def split_def Let_def split: member.splits)

lemma generateBallMetrics_inherited:
  "object_read BALL_SPEED_RANGES (ball_type st) = Inherited \<Longrightarrow>
   generateBallMetrics rng st = Inl ''TypeError''"
  by (simp add: generateBallMetrics_def split_def Let_def)

lemma generateBallMetrics_isl:
  "isl (generateBallMetrics rng st) = (object_read BALL_SPEED_RANGES (ball_type st) = Inherited)"
  using generateBallMetrics_own [of st rng] generateBallMetrics_inherited [of st rng]
  by (cases "object_read BALL_SPEED_RANGES (ball_type st) = Inherited") simp_all

lemma generateAnalysisResult_isl:
  "isl (generateAnalysisResult v seed st now)
     = (object_read BALL_SPEED_RANGES (ball_type st) = Inherited)"
proof -
  have "isl (generateAnalysisResult v seed st now)
      = isl (generateBallMetrics (rng_state seed 6) st)"
    by (simp add: generateAnalysisResult_def split_def Let_def numeral_eq_Suc split: sum.splits)
  then show ?thesis by (simp only: generateBallMetrics_isl)
qed

lemma tennis_own: "object_read BALL_SPEED_RANGES ''tennis'' \<noteq> Inherited"
  by (simp add: object_read_def BALL_SPEED_RANGES_def)

lemma generateAnalysisResult_defaults:
  "\<not> isl (generateAnalysisResult v seed MOCK_DEFAULTS now)"
  "\<not> isl (generateAnalysisResult v seed DEFAULTS now)"
  by (simp_all add: generateAnalysisResult_isl tennis_own MOCK_DEFAULTS_def DEFAULTS_def)

lemma generateAnalysisResult_decision:
  "generateAnalysisResult v seed st now = Inr r \<Longrightarrow>
   decision r = (if fst (rng_next seed) > 45 / 100 then OUT else NOT_OUT)"
  by (auto simp: generateAnalysisResult_def split_def Let_def split: sum.splits)

lemma generateAnalysisResult_criteria:
  "generateAnalysisResult v seed st now = Inr r \<Longrightarrow>
   criteria r =
    (let s1 = snd (rng_next seed); s2 = snd (rng_next s1); s3 = snd (rng_next s2);
         s4 = snd (rng_next s3); s5 = snd (rng_next s4)
     in if fst (rng_next seed) > 45 / 100
        then \<lparr>pitchedInLine = True, impactInLine = True, legBeforeBat = True,
              wouldHitWickets = True\<rparr>
        else \<lparr>pitchedInLine = fst (rng_next s2) > 3 / 10,
              impactInLine = fst (rng_next s3) > 35 / 100,
              legBeforeBat = fst (rng_next s4) > 25 / 100,
              wouldHitWickets = fst (rng_next s5) > 7 / 10\<rparr>)"
  by (auto simp: generateAnalysisResult_def split_def Let_def split: sum.splits)

lemma generateAnalysisResult_confidence:
  "generateAnalysisResult v seed st now = Inr r \<Longrightarrow>
   confidence r = 65 + fst (rng_next (snd (rng_next seed))) * 30"
  by (auto simp: generateAnalysisResult_def split_def Let_def split: sum.splits)

text \<open>The report carries the reading of the clock.\<close>

lemma generateAnalysisResult_createdAt:
  "generateAnalysisResult v seed st now = Inr r \<Longrightarrow> createdAt r = ValidDate now"
  by (auto simp: generateAnalysisResult_def split_def Let_def split: sum.splits)

text \<open>
  C1, as amended. The decision of every report the synthesizer returns is \<open>OUT\<close> when
  the first draw exceeds 0.45 and \<open>NOT_OUT\<close> otherwise, for every video name, seed,
  configuration and clock reading.
\<close>

theorem decision_from_first_draw:
  "generateAnalysisResult v seed st now = Inr r \<Longrightarrow>
   decision r = (if rng_draw seed 0 > 45 / 100 then OUT else NOT_OUT)"
  by (simp add: generateAnalysisResult_decision rng_draw_def)

theorem decision_from_first_draw_witness:
  "generateAnalysisResult ''match_delivery_01.mp4'' 12345 MOCK_DEFAULTS 0
     = Inr (projr (generateAnalysisResult ''match_delivery_01.mp4'' 12345 MOCK_DEFAULTS 0))
   \<and> decision (projr (generateAnalysisResult ''match_delivery_01.mp4'' 12345 MOCK_DEFAULTS 0))
       = (if rng_draw 12345 0 > 45 / 100 then OUT else NOT_OUT)"
proof -
  have r: "generateAnalysisResult ''match_delivery_01.mp4'' 12345 MOCK_DEFAULTS 0
     = Inr (projr (generateAnalysisResult ''match_delivery_01.mp4'' 12345 MOCK_DEFAULTS 0))"
    using generateAnalysisResult_defaults(1) [of "''match_delivery_01.mp4''" 12345 0] by simp
  from r decision_from_first_draw [OF r] show ?thesis by blast
qed

text \<open>
  C1 as stated fails for the first stored analysis: seed 12345 draws
  \<open>1406932606 / 2147483647\<close>, about 0.655, and the report is \<open>OUT\<close>.
\<close>

theorem decision_counterexample:
  "rng_draw 12345 0 > 45 / 100
   \<and> \<not> isl (generateAnalysisResult ''match_delivery_01.mp4'' 12345 MOCK_DEFAULTS 0)
   \<and> decision (projr (generateAnalysisResult ''match_delivery_01.mp4'' 12345 MOCK_DEFAULTS 0)) = OUT"
proof -
  have r: "generateAnalysisResult ''match_delivery_01.mp4'' 12345 MOCK_DEFAULTS 0
     = Inr (projr (generateAnalysisResult ''match_delivery_01.mp4'' 12345 MOCK_DEFAULTS 0))"
    using generateAnalysisResult_defaults(1) [of "''match_delivery_01.mp4''" 12345 0] by simp
  have "decision (projr (generateAnalysisResult ''match_delivery_01.mp4'' 12345 MOCK_DEFAULTS 0)) = OUT"
    using generateAnalysisResult_decision [OF r] by (simp add: rng_next_12345)
  then show ?thesis
    by (simp add: generateAnalysisResult_defaults rng_draw_def rng_next_12345)
qed

text \<open>
  The \<open>OUT\<close> half of the invariant between decision and criteria: the repair after the
  draws makes all four criteria true.
\<close>

lemma out_forces_criteria:
  "generateAnalysisResult v seed st now = Inr r \<Longrightarrow> decision r = OUT \<Longrightarrow>
   criteria r
     = \<lparr>pitchedInLine = True, impactInLine = True, legBeforeBat = True, wouldHitWickets = True\<rparr>"
  using generateAnalysisResult_decision [of v seed st now r]
    generateAnalysisResult_criteria [of v seed st now r]
  by (simp add: Let_def split: if_splits)

lemma rng_next_26: "rng_next 26 = (774121291 / 2147483647, 774121291)"
  by (simp add: rng_eval)

lemma rng_next_774121291: "rng_next 774121291 = (408929536 / 2147483647, 408929536)"
  by (simp add: rng_eval)

lemma rng_next_408929536: "rng_next 408929536 = (1825378624 / 2147483647, 1825378624)"
  by (simp add: rng_eval)

lemma rng_next_1825378624: "rng_next 1825378624 = (1712457728 / 2147483647, 1712457728)"
  by (simp add: rng_eval)

lemma rng_next_1712457728: "rng_next 1712457728 = (605919232 / 2147483647, 605919232)"
  by (simp add: rng_eval)

lemma rng_next_605919232: "rng_next 605919232 = (1961486336 / 2147483647, 1961486336)"
  by (simp add: rng_eval)

text \<open>
  C2. The invariant asks that a \<open>NOT_OUT\<close> report has a false criterion. The code does
  not keep it: at seed 26 with the default configuration the first draw is about 0.36, so
  the decision is \<open>NOT_OUT\<close>, the draws for the four criteria (0.85, 0.80, 0.28, 0.91)
  pass their thresholds (0.3, 0.35, 0.25, 0.7), and nothing after the draws repairs them.
\<close>

theorem not_out_with_all_criteria_at_seed_26:
  "\<not> isl (generateAnalysisResult ''a'' 26 MOCK_DEFAULTS 0)
   \<and> decision (projr (generateAnalysisResult ''a'' 26 MOCK_DEFAULTS 0)) = NOT_OUT
   \<and> pitchedInLine (criteria (projr (generateAnalysisResult ''a'' 26 MOCK_DEFAULTS 0)))
   \<and> impactInLine (criteria (projr (generateAnalysisResult ''a'' 26 MOCK_DEFAULTS 0)))
   \<and> legBeforeBat (criteria (projr (generateAnalysisResult ''a'' 26 MOCK_DEFAULTS 0)))
   \<and> wouldHitWickets (criteria (projr (generateAnalysisResult ''a'' 26 MOCK_DEFAULTS 0)))"
proof -
  have r: "generateAnalysisResult ''a'' 26 MOCK_DEFAULTS 0
     = Inr (projr (generateAnalysisResult ''a'' 26 MOCK_DEFAULTS 0))"
    using generateAnalysisResult_defaults(1) [of "''a''" 26 0] by simp
  have d: "decision (projr (generateAnalysisResult ''a'' 26 MOCK_DEFAULTS 0)) = NOT_OUT"
    using generateAnalysisResult_decision [OF r] by (simp add: rng_next_26)
  have c: "criteria (projr (generateAnalysisResult ''a'' 26 MOCK_DEFAULTS 0))
      = \<lparr>pitchedInLine = True, impactInLine = True, legBeforeBat = True, wouldHitWickets = True\<rparr>"
    using generateAnalysisResult_criteria [OF r]
    by (simp add: Let_def rng_next_26 rng_next_774121291 rng_next_408929536 rng_next_1825378624
        rng_next_1712457728 rng_next_605919232)
  from d c show ?thesis by (simp add: generateAnalysisResult_defaults)
qed

lemma push_points_length: "length (fst (push_points f is rng)) = length is"
  by (induction "is" arbitrary: rng) (simp_all add: split_def Let_def)

lemma push_points_map:
  "(\<And>i d. h (f i d) = g i) \<Longrightarrow> map h (fst (push_points f is rng)) = map g is"
  by (induction "is" arbitrary: rng) (simp_all add: split_def Let_def)

lemma generateTrajectory_length: "length (fst (generateTrajectory rng st)) = 26"
  by (simp add: generateTrajectory_def split_def Let_def push_points_length)

lemma generateTrajectory_heights:
  "map tp_z (fst (generateTrajectory rng st)) =
     map (\<lambda>i. Num (200 - (real i / 10) * 180 + ((real i / 10) * (real i / 10)) * 20)) [0..<11]
     @ map (\<lambda>i. times_num (20 + (real i / 10) * 40 - ((real i / 10) * (real i / 10)) * 20)
                  (bounce_factor st)) [1..<11]
     @ map (\<lambda>i. times_num (40 + sin ((real i / 5) * pi) * 20) (bounce_factor st)) [1..<6]"
  unfolding generateTrajectory_def split_def Let_def fst_conv map_append
  by (simp only: push_points_map [where h = tp_z] TrajectoryPoint.simps)

lemma generateAnalysisResult_trajectory:
  "generateAnalysisResult v seed st now = Inr r \<Longrightarrow>
   \<exists>rng. trajectory r = fst (generateTrajectory rng st)"
  by (auto simp: generateAnalysisResult_def split_def Let_def split: sum.splits)

lemma bounce_factor_defaults: "bounce_factor MOCK_DEFAULTS = Num (13 / 10)"
  by (simp add: bounce_factor_def object_read_def SURFACE_BOUNCE_def MOCK_DEFAULTS_def)

text \<open>
  C4, as amended. With seed 12345 and the default configuration the synthesizer returns a
  report whose trajectory has exactly 26 points: 11 release-to-bounce samples, 10
  bounce-to-impact samples and 5 impact-to-stumps samples, with the heights of the three
  formulas of the source at the bounce factor 1.3 of concrete.
\<close>

theorem trajectory_26_points:
  "generateAnalysisResult v 12345 MOCK_DEFAULTS now
     = Inr (projr (generateAnalysisResult v 12345 MOCK_DEFAULTS now))
   \<and> length (trajectory (projr (generateAnalysisResult v 12345 MOCK_DEFAULTS now))) = 26
   \<and> map tp_z (trajectory (projr (generateAnalysisResult v 12345 MOCK_DEFAULTS now))) =
       map (\<lambda>i. Num (200 - (real i / 10) * 180 + ((real i / 10) * (real i / 10)) * 20)) [0..<11]
       @ map (\<lambda>i. Num ((20 + (real i / 10) * 40 - ((real i / 10) * (real i / 10)) * 20) * (13 / 10)))
           [1..<11]
       @ map (\<lambda>i. Num ((40 + sin ((real i / 5) * pi) * 20) * (13 / 10))) [1..<6]"
proof -
  let ?r = "projr (generateAnalysisResult v 12345 MOCK_DEFAULTS now)"
  have r: "generateAnalysisResult v 12345 MOCK_DEFAULTS now = Inr ?r"
    using generateAnalysisResult_defaults(1) [of v 12345 now] by simp
  obtain rng where t: "trajectory ?r = fst (generateTrajectory rng MOCK_DEFAULTS)"
    using generateAnalysisResult_trajectory [OF r] by blast
  have len: "length (trajectory ?r) = 26"
    unfolding t by (rule generateTrajectory_length)
  have hs: "map tp_z (trajectory ?r) =
       map (\<lambda>i. Num (200 - (real i / 10) * 180 + ((real i / 10) * (real i / 10)) * 20)) [0..<11]
       @ map (\<lambda>i. Num ((20 + (real i / 10) * 40 - ((real i / 10) * (real i / 10)) * 20) * (13 / 10)))
           [1..<11]
       @ map (\<lambda>i. Num ((40 + sin ((real i / 5) * pi) * 20) * (13 / 10))) [1..<6]"
    unfolding t generateTrajectory_heights bounce_factor_defaults times_num.simps ..
  from r len hs show ?thesis by blast
qed

text \<open>C4 as stated fails: the trajectory of seed 12345 does not have 27 points.\<close>

theorem trajectory_27_counterexample:
  "\<not> isl (generateAnalysisResult ''match_delivery_01.mp4'' 12345 MOCK_DEFAULTS 0)
   \<and> length (trajectory (projr (generateAnalysisResult ''match_delivery_01.mp4'' 12345
                                   MOCK_DEFAULTS 0))) \<noteq> 27"
proof -
  let ?r = "projr (generateAnalysisResult ''match_delivery_01.mp4'' 12345 MOCK_DEFAULTS 0)"
  have r: "generateAnalysisResult ''match_delivery_01.mp4'' 12345 MOCK_DEFAULTS 0 = Inr ?r"
    using generateAnalysisResult_defaults(1) [of "''match_delivery_01.mp4''" 12345 0] by simp
  obtain rng where t: "trajectory ?r = fst (generateTrajectory rng MOCK_DEFAULTS)"
    using generateAnalysisResult_trajectory [OF r] by blast
  have "length (trajectory ?r) = 26"
    unfolding t by (rule generateTrajectory_length)
  then show ?thesis by (simp add: generateAnalysisResult_defaults)
qed

section \<open>Properties of the event-stream client\<close>

lemma split_frames_nonempty: "split_frames s \<noteq> []"
  by (induction s rule: split_frames.induct) (auto split: list.splits)

lemma join_frames_Cons: "join_frames ((c # f) # fs) = c # join_frames (f # fs)"
  by (cases fs) simp_all

lemma join_split_frames: "join_frames (split_frames s) = s"
proof (induction s rule: split_frames.induct)
  case 1
  show ?case by simp
next
  case (2 c)
  show ?case by simp
next
  case (3 c d cs)
  show ?case
  proof (cases "c = CHR 0x0A \<and> d = CHR 0x0A")
    case True
    obtain g gs where "split_frames cs = g # gs"
      using split_frames_nonempty [of cs] by (cases "split_frames cs") auto
    with True 3(1) show ?thesis by simp
  next
    case False
    obtain f fs where s: "split_frames (d # cs) = f # fs"
      using split_frames_nonempty [of "d # cs"] by (cases "split_frames (d # cs)") auto
    from False s have e: "split_frames (c # d # cs) = (c # f) # fs" by simp
    from 3(2) [OF False] s have "join_frames (f # fs) = d # cs" by simp
    then show ?thesis unfolding e by (simp add: join_frames_Cons)
  qed
qed

lemma split_frames_single: "split_frames s = [f] \<Longrightarrow> f = s"
  using join_split_frames [of s] by simp

lemma split_frames_append:
  "butlast (split_frames (s @ t))
     = butlast (split_frames s) @ butlast (split_frames (last (split_frames s) @ t))
   \<and> last (split_frames (s @ t)) = last (split_frames (last (split_frames s) @ t))"
proof (induction s rule: split_frames.induct)
  case 1
  show ?case by simp
next
  case (2 c)
  show ?case by simp
next
  case (3 c d cs)
  show ?case
  proof (cases "c = CHR 0x0A \<and> d = CHR 0x0A")
    case True
    with 3(1) show ?thesis
      by (simp add: split_frames_nonempty)
  next
    case False
    obtain f fs where s1: "split_frames (d # cs) = f # fs"
      using split_frames_nonempty [of "d # cs"] by (cases "split_frames (d # cs)") auto
    obtain g gs where s2: "split_frames (d # cs @ t) = g # gs"
      using split_frames_nonempty [of "d # cs @ t"] by (cases "split_frames (d # cs @ t)") auto
    from False s1 have e1: "split_frames (c # d # cs) = (c # f) # fs" by simp
    from False s2 have e2: "split_frames ((c # d # cs) @ t) = (c # g) # gs" by simp
    from 3(2) [OF False] s1 s2 have IH:
      "butlast (g # gs) = butlast (f # fs) @ butlast (split_frames (last (f # fs) @ t))"
      "last (g # gs) = last (split_frames (last (f # fs) @ t))"
      by simp_all
    show ?thesis
    proof (cases "fs = []")
      case True
      with s1 have "f = d # cs" by (simp add: split_frames_single)
      with True e1 show ?thesis by simp
    next
      case fsne: False
      with IH(1) have gs: "gs \<noteq> []" "g = f"
        "butlast gs = butlast fs @ butlast (split_frames (last fs @ t))"
        by (auto split: if_splits)
      with IH(2) fsne have "last gs = last (split_frames (last fs @ t))" by simp
      with gs fsne show ?thesis unfolding e1 e2 by simp
    qed
  qed
qed

lemma split_frames_rest:
  "split_frames (last (split_frames s)) = [last (split_frames s)]"
proof -
  let ?r = "last (split_frames s)"
  from split_frames_append [of s "[]"]
  have "butlast (split_frames ?r) = []" and "last (split_frames ?r) = ?r"
    by simp_all
  then show ?thesis
    by (metis append_butlast_last_id append_Nil split_frames_nonempty)
qed

lemma join_frames_concat:
  "fs \<noteq> [] \<Longrightarrow>
   join_frames fs = concat (map (\<lambda>f. f @ [CHR 0x0A, CHR 0x0A]) (butlast fs)) @ last fs"
  by (induction fs rule: join_frames.induct) simp_all

lemma concat_whole_frame_chunks: "concat (whole_frame_chunks payload) = payload"
  using join_frames_concat [OF split_frames_nonempty, of payload]
  by (simp add: whole_frame_chunks_def complete_frames_def join_split_frames)

lemma process_lines_append:
  "process_lines P now (xs @ ys) =
     (case process_lines P now xs of
        (ps, ups, Continue) \<Rightarrow>
          (let (ps', ups', d) = process_lines P now ys in (ps @ ps', ups @ ups', d))
      | (ps, ups, d) \<Rightarrow> (ps, ups, d))"
proof (induction xs)
  case Nil
  show ?case by (simp add: split_def)
next
  case (Cons x xs)
  show ?case
  proof (cases "startsWith x ''data: ''")
    case False
    with Cons show ?thesis by simp
  next
    case True
    obtain ups d where df: "dispatch_frame P now x = (ups, d)"
      by (cases "dispatch_frame P now x")
    show ?thesis
    proof (cases d)
      case Continue
      with True df Cons show ?thesis
        by (simp add: split_def Let_def split: Dispatch.splits)
    next
      case (Resolve r)
      with True df show ?thesis by simp
    next
      case (Reject e)
      with True df show ?thesis by simp
    qed
  qed
qed

lemma process_lines_parsed: "set (fst (process_lines P now ls)) \<subseteq> drop 6 ` set ls"
proof (induction ls)
  case Nil
  show ?case by simp
next
  case (Cons x xs)
  then show ?case
    by (auto simp: split_def Let_def split: prod.splits Dispatch.splits)
qed

lemma read_loop_single:
  "split_frames buffer = [buffer] \<Longrightarrow>
   read_loop P now ending buffer chunks = single_read P now ending (buffer @ concat chunks)"
proof (induction chunks arbitrary: buffer)
  case Nil
  then show ?case by (simp add: single_read_def end_outcome_def)
next
  case (Cons c cs)
  let ?b = "last (split_frames (buffer @ c))"
  have inv: "split_frames ?b = [?b]" by (rule split_frames_rest)
  note IH = Cons.IH [OF inv]
  have sp: "butlast (split_frames ((buffer @ c) @ concat cs))
      = butlast (split_frames (buffer @ c)) @ butlast (split_frames (?b @ concat cs))"
    using split_frames_append [of "buffer @ c" "concat cs"] by simp
  obtain ps ups d where pl: "process_lines P now (butlast (split_frames (buffer @ c))) = (ps, ups, d)"
    by (metis prod_cases3)
  show ?case
  proof (cases d)
    case Continue
    obtain ps' ups' d' where pl': "process_lines P now (butlast (split_frames (?b @ concat cs))) = (ps', ups', d')"
      by (metis prod_cases3)
    have "read_loop P now ending buffer (c # cs) =
        (let (qs, vs, out) = read_loop P now ending ?b cs in (ps @ qs, ups @ vs, out))"
      using pl Continue by (simp add: Let_def)
    also have "\<dots> = (let (qs, vs, out) = single_read P now ending (?b @ concat cs) in (ps @ qs, ups @ vs, out))"
      by (simp only: IH)
    also have "\<dots> = single_read P now ending ((buffer @ c) @ concat cs)"
      unfolding single_read_def sp process_lines_append pl pl' using Continue
      by (cases d') simp_all
    finally show ?thesis by simp
  next
    case (Resolve r)
    have "read_loop P now ending buffer (c # cs) = (ps, ups, Returns r)"
      using pl Resolve by (simp add: Let_def)
    also have "\<dots> = single_read P now ending ((buffer @ c) @ concat cs)"
      unfolding single_read_def sp process_lines_append pl using Resolve by simp
    finally show ?thesis by simp
  next
    case (Reject e)
    have "read_loop P now ending buffer (c # cs) = (ps, ups, Throws e)"
      using pl Reject by (simp add: Let_def)
    also have "\<dots> = single_read P now ending ((buffer @ c) @ concat cs)"
      unfolding single_read_def sp process_lines_append pl using Reject by simp
    finally show ?thesis by simp
  qed
qed

lemma processEvents_single:
  "processEvents P now ending chunks = single_read P now ending (concat chunks)"
  unfolding processEvents_def using read_loop_single [of "[]" P now ending chunks] by simp

lemma single_read_parsed:
  "set (fst (single_read P now ending s)) \<subseteq> drop 6 ` set (complete_frames s)"
  using process_lines_parsed [of P now "butlast (split_frames s)"]
  by (auto simp: single_read_def complete_frames_def split: prod.splits Dispatch.splits)

text \<open>
  C5. For every text of the event stream and every way of cutting it into successive
  reads, also in the middle of a frame, the read loop passes the same strings to
  \<open>JSON.parse\<close>, makes the same calls of \<open>onStepUpdate\<close> and settles (or does not
  settle) the call in the same way as when the whole text arrives in one read, and as when
  it arrives cut after every frame delimiter. Every string parsed is a complete frame of
  the whole text, less its \<^verbatim>\<open>data: \<close> prefix.
\<close>

theorem chunking_independent:
  "processEvents P now ending chunks = processEvents P now ending [concat chunks]
   \<and> processEvents P now ending chunks
       = processEvents P now ending (whole_frame_chunks (concat chunks))
   \<and> set (fst (processEvents P now ending chunks)) \<subseteq> drop 6 ` set (complete_frames (concat chunks))"
  by (simp add: processEvents_single concat_whole_frame_chunks single_read_parsed)

section \<open>Properties of generateFileHash\<close>

lemma generateFileHash_empty:
  "file_bytes file = [] \<Longrightarrow>
   generateFileHash file = \<lparr>seed_of = 84696351, progress_calls = [100], warnings = []\<rparr>"
  by (simp add: generateFileHash_def chunkSize_def FNV_PRIME_def)

lemma metadata_hash_empty_file: "metadata_hash empty_file = 545002602"
  by (simp add: metadata_hash_def empty_file_def show_nat.simps show_int_def digit_char_def)

text \<open>
  C10, as amended. Fingerprinting a zero-byte file returns the integer seed 84696351 and
  calls the progress callback exactly once, with 100. It does so on the normal path: no
  chunk is read, no warning is logged, and the metadata hash is not used, whatever the
  file's name, stamp and readability. The function has no raising path.
\<close>

theorem zero_byte_fingerprint:
  "file_bytes file = [] \<Longrightarrow>
   seed_of (generateFileHash file) = 84696351
   \<and> progress_calls (generateFileHash file) = [100]
   \<and> warnings (generateFileHash file) = []"
  by (simp add: generateFileHash_empty)

theorem zero_byte_fingerprint_witness:
  "file_bytes empty_file = []
   \<and> seed_of (generateFileHash empty_file) = 84696351
   \<and> progress_calls (generateFileHash empty_file) = [100]
   \<and> warnings (generateFileHash empty_file) = []"
proof -
  have e: "file_bytes empty_file = []" by (simp add: empty_file_def)
  from e zero_byte_fingerprint [OF e] show ?thesis by simp
qed

text \<open>
  C10 as stated fails: for the zero-byte file \<open>a.mp4\<close> the fallback is not taken; its
  warning is not logged and the seed differs from the metadata hash 545002602.
\<close>

theorem zero_byte_fallback_counterexample:
  "file_bytes empty_file = []
   \<and> warnings (generateFileHash empty_file) = []
   \<and> seed_of (generateFileHash empty_file) \<noteq> metadata_hash empty_file"
proof -
  have e: "file_bytes empty_file = []" by (simp add: empty_file_def)
  show ?thesis
    by (simp add: generateFileHash_empty [OF e] metadata_hash_empty_file e)
qed

section \<open>Properties of parseAnalysisResult\<close>

text \<open>The confidence of a synthesized report lies in \<open>[65, 95)\<close>.\<close>

lemma synthesized_confidence_bounds:
  "generateAnalysisResult v seed st now = Inr r \<Longrightarrow> 65 \<le> confidence r \<and> confidence r < 95"
  using rng_next_unit [of "snd (rng_next seed)"]
  by (simp add: generateAnalysisResult_confidence)

lemma parseAnalysisResult_confidence:
  "parseAnalysisResult P t data = Inr r \<Longrightarrow>
   p_confidence r = num_or_zero (js_Number P (get_prop data ''confidence''))"
  by (auto simp: parseAnalysisResult_def parsed_object_def Let_def split: if_splits)

text \<open>
  C7. The claim asks that every parsed report has its confidence in \<open>[0, 100]\<close>. The
  parser does not keep it: \<^verbatim>\<open>Number(result.confidence) || 0\<close> replaces \<open>NaN\<close> by 0 and
  clamps nothing, so the payload \<^verbatim>\<open>{"confidence": 150}\<close> is parsed to a report with
  confidence 150.
\<close>

theorem parsed_confidence_not_clamped:
  "(case parseAnalysisResult bare_platform 0 (JObject [(''confidence'', JNumber (Num 150))]) of
      Inl e \<Rightarrow> None
    | Inr r \<Rightarrow> Some (p_confidence r)) = Some (Num 150)"
  by (simp add: parseAnalysisResult_def parsed_object_def nullish_def js_Number_def
      num_or_zero_def)

section \<open>Properties of the durable store\<close>

lemma saveAnalysisToDb_never_raises: "\<exists>saved. saveAnalysisToDb S result = Inr saved"
  unfolding saveAnalysisToDb_def try_catch_def
  by (auto split: reply.splits option.splits sum.splits supa.splits)

lemma getAnalysisFromDb_hit:
  "select_analysis S ident = SupaResult None (Some row) \<Longrightarrow>
   getAnalysisFromDb P S ident = Inr (Some (fromDbFormat P row))"
  by (simp add: getAnalysisFromDb_def try_catch_def)

lemma getAnalysisResult_hit:
  "auth_user env = Reply (Some uid) \<Longrightarrow>
   select_analysis (store env) ident = SupaResult None (Some row) \<Longrightarrow>
   getAnalysisResult env stored ident
     = Some (Typed (merge_db_result (fromDbFormat (platform env) row)
                      (find (\<lambda>a. result_id a = ident) stored) ident))"
  by (simp add: getAnalysisResult_def isUserAuthenticated_def try_catch_def getAnalysisFromDb_hit)

lemma saveAnalysisToDb_insert_raises:
  "getUser S = Reply (Some uid) \<Longrightarrow> toDbFormat result uid = Inr row \<Longrightarrow>
   select_existing S uid (report_id result) = SupaResult None None \<Longrightarrow>
   insert_row S row = SupaThrows e \<Longrightarrow>
   saveAnalysisToDb S result = Inr False"
  by (simp add: saveAnalysisToDb_def try_catch_def)

text \<open>
  C6. Once the settings are read: in real-backend mode every report that
  \<open>uploadToBackend\<close> returns is what \<open>analyzeVideo\<close> returns; in mock mode the report
  found in the in-memory log, or else every report that \<open>generateAnalysisResult\<close>
  returns, with the steps of this run, is what \<open>analyzeVideo\<close> returns. This holds
  whatever the store replies or raises during the save.
\<close>

theorem save_errors_swallowed:
  "getSettings (settings_user env) (settings_row env) = Inr settings \<Longrightarrow>
   (\<not> USE_MOCK_API env \<longrightarrow>
      (\<forall>result. snd (uploadToBackend (platform env) (clock env 0) (analyze_fetch env))
                   = Returns result
         \<longrightarrow> returned (analyzeVideo env stored file) = Returns (FromBackend result)))
   \<and> (USE_MOCK_API env \<longrightarrow>
        (case find (\<lambda>a. result_id a
                      = ''analysis-'' @ show_int (seed_of (generateFileHash file)) @ ''-''
                          @ replace_spaces (file_name file)) stored of
           Some existing \<Rightarrow> returned (analyzeVideo env stored file) = Returns (Typed existing)
         | None \<Rightarrow>
             (\<forall>generated.
                generateAnalysisResult (file_name file) (seed_of (generateFileHash file)) settings
                    (clock env (length createAnalysisSteps)) = Inr generated
                \<longrightarrow> returned (analyzeVideo env stored file)
                     = Returns (Typed (generated
                         \<lparr>steps := snd (run_steps (clock env) createAnalysisSteps)\<rparr>)))))"
proof -
  assume gs: "getSettings (settings_user env) (settings_row env) = Inr settings"
  have real: "\<not> USE_MOCK_API env \<longrightarrow>
      (\<forall>result. snd (uploadToBackend (platform env) (clock env 0) (analyze_fetch env))
                   = Returns result
         \<longrightarrow> returned (analyzeVideo env stored file) = Returns (FromBackend result))"
  proof (intro impI allI)
    fix result
    assume m: "\<not> USE_MOCK_API env"
      and up: "snd (uploadToBackend (platform env) (clock env 0) (analyze_fetch env)) = Returns result"
    obtain saved where "saveAnalysisToDb (store env) (FromBackend result) = Inr saved"
      using saveAnalysisToDb_never_raises by blast
    with gs m up show "returned (analyzeVideo env stored file) = Returns (FromBackend result)"
      by (simp add: analyzeVideo_def split_def)
  qed
  have mock: "USE_MOCK_API env \<longrightarrow>
        (case find (\<lambda>a. result_id a
                      = ''analysis-'' @ show_int (seed_of (generateFileHash file)) @ ''-''
                          @ replace_spaces (file_name file)) stored of
           Some existing \<Rightarrow> returned (analyzeVideo env stored file) = Returns (Typed existing)
         | None \<Rightarrow>
             (\<forall>generated.
                generateAnalysisResult (file_name file) (seed_of (generateFileHash file)) settings
                    (clock env (length createAnalysisSteps)) = Inr generated
                \<longrightarrow> returned (analyzeVideo env stored file)
                     = Returns (Typed (generated
                         \<lparr>steps := snd (run_steps (clock env) createAnalysisSteps)\<rparr>))))"
    using gs
    by (simp add: analyzeVideo_def split_def Let_def try_catch_def
        split: option.splits sum.splits)
  from real mock show ?thesis by blast
qed

text \<open>
  In both sample runs the save reaches the store and the insert raises: the parsed report
  carries a valid date, so \<open>toDbFormat\<close> gives a row.
\<close>

theorem save_errors_swallowed_witness:
  "returned (analyzeVideo (sample_env False) [] empty_file)
     = Returns (FromBackend (parsed_object dated_platform 1000
         (JObject [(''id'', JString ''r1''), (''confidence'', JNumber (Num 88)),
                   (''created_at'', JString ''2026-01-26T13:25:34Z'')])))
   \<and> toDbFormat (FromBackend (parsed_object dated_platform 1000
         (JObject [(''id'', JString ''r1''), (''confidence'', JNumber (Num 88)),
                   (''created_at'', JString ''2026-01-26T13:25:34Z'')]))) ''u1''
       = Inr (projr (toDbFormat (FromBackend (parsed_object dated_platform 1000
         (JObject [(''id'', JString ''r1''), (''confidence'', JNumber (Num 88)),
                   (''created_at'', JString ''2026-01-26T13:25:34Z'')]))) ''u1''))
   \<and> insert_row raising_store (projr (toDbFormat (FromBackend (parsed_object dated_platform 1000
         (JObject [(''id'', JString ''r1''), (''confidence'', JNumber (Num 88)),
                   (''created_at'', JString ''2026-01-26T13:25:34Z'')]))) ''u1''))
       = SupaThrows ''insert failed''
   \<and> saveAnalysisToDb raising_store (FromBackend (parsed_object dated_platform 1000
         (JObject [(''id'', JString ''r1''), (''confidence'', JNumber (Num 88)),
                   (''created_at'', JString ''2026-01-26T13:25:34Z'')]))) = Inr False
   \<and> returned (analyzeVideo (sample_env True) [] empty_file)
     = Returns (Typed ((projr (generateAnalysisResult (file_name empty_file)
                          (seed_of (generateFileHash empty_file)) DEFAULTS
                          (1000 + int (length createAnalysisSteps))))
                       \<lparr>steps := snd (run_steps (\<lambda>k. 1000 + int k) createAnalysisSteps)\<rparr>))
   \<and> saveAnalysisToDb raising_store
         (Typed ((projr (generateAnalysisResult (file_name empty_file)
                    (seed_of (generateFileHash empty_file)) DEFAULTS
                    (1000 + int (length createAnalysisSteps))))
                 \<lparr>steps := snd (run_steps (\<lambda>k. 1000 + int k) createAnalysisSteps)\<rparr>)) = Inr False"
proof -
  let ?payload = "JObject [(''id'', JString ''r1''), (''confidence'', JNumber (Num 88)),
                   (''created_at'', JString ''2026-01-26T13:25:34Z'')]"
  let ?parsed = "parsed_object dated_platform 1000 ?payload"
  let ?gen = "generateAnalysisResult (file_name empty_file)
                  (seed_of (generateFileHash empty_file)) DEFAULTS
                  (1000 + int (length createAnalysisSteps))"
  let ?made = "(projr ?gen)\<lparr>steps := snd (run_steps (\<lambda>k. 1000 + int k) createAnalysisSteps)\<rparr>"
  have gs: "getSettings (settings_user (sample_env m)) (settings_row (sample_env m)) = Inr DEFAULTS"
    for m by (simp add: getSettings_def sample_env_def)
  have up: "snd (uploadToBackend (platform (sample_env False)) (clock (sample_env False) 0)
                  (analyze_fetch (sample_env False))) = Returns ?parsed"
    by (simp add: sample_env_def uploadToBackend_def json_response_def parseAnalysisResult_def
        nullish_def)
  have real: "returned (analyzeVideo (sample_env False) [] empty_file) = Returns (FromBackend ?parsed)"
    using save_errors_swallowed [OF gs, of False "[]" empty_file] up
    by (simp add: sample_env_def)
  have gen: "?gen = Inr (projr ?gen)"
    using generateAnalysisResult_defaults(2)
      [of "file_name empty_file" "seed_of (generateFileHash empty_file)"
          "1000 + int (length createAnalysisSteps)"]
    by simp
  have mock: "returned (analyzeVideo (sample_env True) [] empty_file) = Returns (Typed ?made)"
    using save_errors_swallowed [OF gs, of True "[]" empty_file] gen
    by (simp add: sample_env_def)
  have created: "p_createdAt ?parsed = ValidDate 1769433934000"
    by (simp add: parsed_object_def dated_platform_def bare_platform_def or_else_def js_String_def)
  have row: "toDbFormat (FromBackend ?parsed) ''u1'' = Inr (projr (toDbFormat (FromBackend ?parsed) ''u1''))"
    by (simp add: toDbFormat_def report_createdAt_def created)
  have ins: "insert_row raising_store (projr (toDbFormat (FromBackend ?parsed) ''u1''))
      = SupaThrows ''insert failed''"
    by (simp add: raising_store_def)
  have s1: "saveAnalysisToDb raising_store (FromBackend ?parsed) = Inr False"
    using saveAnalysisToDb_insert_raises [OF _ row _ ins] by (simp add: raising_store_def)
  have c2: "createdAt ?made = ValidDate (1000 + int (length createAnalysisSteps))"
    using generateAnalysisResult_createdAt [OF gen] by simp
  have s2: "saveAnalysisToDb raising_store (Typed ?made) = Inr False"
    by (simp add: saveAnalysisToDb_def try_catch_def raising_store_def toDbFormat_def
        report_createdAt_def c2)
  from real row ins s1 mock s2 show ?thesis by blast
qed

text \<open>
  C9. When the caller is signed in and the store has a record for the id, the report
  returned by \<open>getAnalysisResult\<close> has the id, video name, decision, confidence,
  trajectory, predicted wicket hit, creation date, umpire's-call flag and key frames of
  the durable record, whatever the in-memory log holds; criteria, steps, ball metrics and
  the three sub-analyses are those of the in-memory entry with that id when there is one,
  and otherwise the criteria are all true except that \<open>wouldHitWickets\<close> is true only
  for \<open>OUT\<close>, the steps are the completed pipeline and the rest is absent.
\<close>

theorem durable_fields_take_precedence:
  "auth_user env = Reply (Some uid) \<Longrightarrow>
   select_analysis (store env) ident = SupaResult None (Some row) \<Longrightarrow>
   (let db = fromDbFormat (platform env) row;
        mem = find (\<lambda>a. result_id a = ident) stored;
        r = merge_db_result db mem ident
    in getAnalysisResult env stored ident = Some (Typed r)
       \<and> result_id r = db_id db \<and> videoName r = db_videoName db
       \<and> decision r = db_decision db \<and> confidence r = db_confidence db
       \<and> trajectory r = db_trajectory db \<and> predictedWicketHit r = db_predictedWicketHit db
       \<and> createdAt r = db_createdAt db \<and> isUmpiresCall r = db_isUmpiresCall db
       \<and> keyFrames r = db_keyFrames db
       \<and> (case mem of
             Some m \<Rightarrow>
               criteria r = criteria m \<and> steps r = steps m \<and> ballMetrics r = ballMetrics m
               \<and> pitchAnalysis r = pitchAnalysis m \<and> impactAnalysis r = impactAnalysis m
               \<and> wicketPrediction r = wicketPrediction m
           | None \<Rightarrow>
               criteria r = \<lparr>pitchedInLine = True, impactInLine = True, legBeforeBat = True,
                              wouldHitWickets = (db_decision db = OUT)\<rparr>
               \<and> steps r = completed_steps \<and> ballMetrics r = None \<and> pitchAnalysis r = None
               \<and> impactAnalysis r = None \<and> wicketPrediction r = None))"
  by (simp add: getAnalysisResult_hit Let_def merge_db_result_def default_criteria_def
      split: option.splits)

theorem durable_fields_take_precedence_witness:
  "decision sample_memory_entry = OUT
   \<and> (\<exists>r. getAnalysisResult (sample_env True) [sample_memory_entry] ''id1'' = Some (Typed r)
          \<and> result_id r = ''id1'' \<and> videoName r = ''net.mp4'' \<and> decision r = NOT_OUT
          \<and> confidence r = 71 \<and> trajectory r = [] \<and> predictedWicketHit r = None
          \<and> isUmpiresCall r = Some False \<and> keyFrames r = None
          \<and> criteria r = criteria sample_memory_entry
          \<and> steps r = steps sample_memory_entry)"
proof -
  have g: "generateAnalysisResult ''net.mp4'' 12345 MOCK_DEFAULTS 0
      = Inr (projr (generateAnalysisResult ''net.mp4'' 12345 MOCK_DEFAULTS 0))"
    using generateAnalysisResult_defaults(1) [of "''net.mp4''" 12345 0] by simp
  have d: "decision sample_memory_entry = OUT"
    using generateAnalysisResult_decision [OF g]
    by (simp add: sample_memory_entry_def rng_next_12345)
  have a: "auth_user (sample_env True) = Reply (Some ''u1'')"
    by (simp add: sample_env_def)
  have s: "select_analysis (store (sample_env True)) ''id1'' = SupaResult None (Some sample_row)"
    by (simp add: sample_env_def raising_store_def)
  have rid: "result_id sample_memory_entry = ''id1''"
    by (simp add: sample_memory_entry_def)
  from durable_fields_take_precedence [OF a s, of "[sample_memory_entry]"] d show ?thesis
    by (simp add: Let_def rid fromDbFormat_def sample_row_def)
qed


end
